theory Spec2Isabelle
  imports Main
begin

section \<open>Data model (src/db/tables.ts)\<close>

text \<open>
  Opaque structured data (the \<^verbatim>\<open>column.json\<close> columns and the \<^verbatim>\<open>z.any()\<close> inputs).
  The handlers never look inside such a value; they only test whether one was supplied.
\<close>

datatype json =
    JNull
  | JBool bool
  | JNum int
  | JStr string
  | JArr "json list"
  | JObj "(string \<times> json) list"

text \<open>The enumerated text columns.\<close>

datatype sourceType = Manual | Upload | Web | Other

datatype summaryType = Short | Detailed | BulletPoints | KeyPoints | ActionItems

datatype jobType = JobSummary | JobKeyPoints | JobActionItems | JobRewrite | JobOther

datatype jobStatus = Pending | Completed | Failed

text \<open>
  One record per table row. Ids are JavaScript integers (\<^typ>\<open>int\<close>), dates are
  milliseconds since the epoch, an optional column holds \<open>None\<close> for SQL NULL.
\<close>

record NotesDocuments_row =
  doc_id :: int
  doc_ownerId :: string
  doc_title :: string
  doc_content :: string
  doc_sourceType :: sourceType
  doc_sourceMeta :: "json option"
  doc_tags :: "string option"
  doc_createdAt :: int
  doc_updatedAt :: int

record NoteSummaries_row =
  sum_id :: int
  sum_documentId :: int
  sum_ownerId :: string
  sum_summaryType :: summaryType
  sum_content :: string
  sum_originalLength :: "int option"
  sum_summaryLength :: "int option"
  sum_meta :: "json option"
  sum_createdAt :: int

record SummaryJobs_row =
  job_id :: int
  job_documentId :: "int option"
  job_ownerId :: string
  job_jobType :: jobType
  job_input :: "json option"
  job_output :: "json option"
  job_status :: jobStatus
  job_createdAt :: int

text \<open>
  The store: the three tables in insertion order, each with the counter of its
  auto-incremented primary key.
\<close>

record db =
  NotesDocuments :: "NotesDocuments_row list"
  NotesDocuments_seq :: int
  NoteSummaries :: "NoteSummaries_row list"
  NoteSummaries_seq :: int
  SummaryJobs :: "SummaryJobs_row list"
  SummaryJobs_seq :: int

definition empty_db :: db where
  "empty_db = \<lparr>NotesDocuments = [], NotesDocuments_seq = 1,
               NoteSummaries = [], NoteSummaries_seq = 1,
               SummaryJobs = [], SummaryJobs_seq = 1\<rparr>"

section \<open>Errors\<close>

text \<open>
  What a handler can end with instead of a result: an \<^verbatim>\<open>ActionError\<close> it throws
  itself, with its code and message, or the exception of the store when a statement
  violates a reference declared in tables.ts. No handler catches the latter: it
  leaves the handler as an unexpected, internal error.
\<close>

datatype error_code = UNAUTHORIZED | NOT_FOUND

datatype error = ActionError error_code string | ForeignKeyConstraintFailed

section \<open>The relational store (astro:db)\<close>

text \<open>
  Modelled from the spec: the relational store behind \<^verbatim>\<open>db\<close> is an external
  collaborator (\<^verbatim>\<open>astro:db\<close>) whose code is not part of the sources. The spec describes
  it as supporting insert, select, update and delete with equality and conjunction
  filters and a \<^verbatim>\<open>.returning()\<close> read-after-write, every statement being atomic. Here a
  table is the list of its rows in insertion order and a statement is a function on
  that list. The references declared in tables.ts (\<^verbatim>\<open>NoteSummaries.documentId\<close> and
  \<^verbatim>\<open>SummaryJobs.documentId\<close> to \<^verbatim>\<open>NotesDocuments.id\<close>) are enforced: a statement that
  would leave a row referring to no document throws and changes nothing. A delete
  does not cascade.
\<close>

text \<open>Modelled from the spec: \<^verbatim>\<open>db.select().from(T).where(P)\<close>.\<close>

definition select_where :: "('r \<Rightarrow> bool) \<Rightarrow> 'r list \<Rightarrow> 'r list" where
  "select_where P rows = filter P rows"

text \<open>Modelled from the spec: \<^verbatim>\<open>.limit(n)\<close>.\<close>

definition limit :: "nat \<Rightarrow> 'r list \<Rightarrow> 'r list" where
  "limit n rows = take n rows"

text \<open>\<^verbatim>\<open>const [x] = rows\<close>: the first element, or undefined.\<close>

definition first :: "'r list \<Rightarrow> 'r option" where
  "first rows = (case rows of [] \<Rightarrow> None | r # _ \<Rightarrow> Some r)"

text \<open>
  Modelled from the spec: \<^verbatim>\<open>db.update(T).set(f).where(P).returning()\<close> yields the new
  table and the rows it wrote.
\<close>

definition update_where :: "('r \<Rightarrow> bool) \<Rightarrow> ('r \<Rightarrow> 'r) \<Rightarrow> 'r list \<Rightarrow> 'r list \<times> 'r list" where
  "update_where P f rows =
     (map (\<lambda>r. if P r then f r else r) rows, map f (filter P rows))"

text \<open>
  Modelled from the spec: \<^verbatim>\<open>db.delete(T).where(P).returning()\<close> yields the new table
  and the rows it removed.
\<close>

definition delete_where :: "('r \<Rightarrow> bool) \<Rightarrow> 'r list \<Rightarrow> 'r list \<times> 'r list" where
  "delete_where P rows = (filter (\<lambda>r. \<not> P r) rows, filter P rows)"

text \<open>
  Modelled from the spec: \<^verbatim>\<open>db.insert(T).values(v).returning()\<close> gives the row the next
  id of the table (the column is declared \<^verbatim>\<open>autoIncrement\<close>), appends it and returns it.
\<close>

definition insert_NotesDocuments ::
  "(int \<Rightarrow> NotesDocuments_row) \<Rightarrow> db \<Rightarrow> NotesDocuments_row \<times> db" where
  "insert_NotesDocuments vals s =
     (let row = vals (NotesDocuments_seq s)
      in (row, s\<lparr>NotesDocuments := NotesDocuments s @ [row],
                 NotesDocuments_seq := NotesDocuments_seq s + 1\<rparr>))"

text \<open>
  Modelled from the spec: the same insert into a table with a reference. The row is
  refused, and nothing changes, when its \<open>documentId\<close> is the id of no stored document.
\<close>

definition insert_NoteSummaries ::
  "(int \<Rightarrow> NoteSummaries_row) \<Rightarrow> db \<Rightarrow> error + NoteSummaries_row \<times> db" where
  "insert_NoteSummaries vals s =
     (let row = vals (NoteSummaries_seq s)
      in if sum_documentId row \<in> set (map doc_id (NotesDocuments s))
         then Inr (row, s\<lparr>NoteSummaries := NoteSummaries s @ [row],
                          NoteSummaries_seq := NoteSummaries_seq s + 1\<rparr>)
         else Inl ForeignKeyConstraintFailed)"

text \<open>
  Modelled from the spec: the reference of a job is optional; a row without a
  \<open>documentId\<close> (NULL) refers to nothing and is accepted.
\<close>

definition insert_SummaryJobs ::
  "(int \<Rightarrow> SummaryJobs_row) \<Rightarrow> db \<Rightarrow> error + SummaryJobs_row \<times> db" where
  "insert_SummaryJobs vals s =
     (let row = vals (SummaryJobs_seq s)
      in if (case job_documentId row of
               None \<Rightarrow> True
             | Some k \<Rightarrow> k \<in> set (map doc_id (NotesDocuments s)))
         then Inr (row, s\<lparr>SummaryJobs := SummaryJobs s @ [row],
                          SummaryJobs_seq := SummaryJobs_seq s + 1\<rparr>)
         else Inl ForeignKeyConstraintFailed)"

text \<open>
  Modelled from the spec: a delete from the documents is refused, and nothing changes,
  when a summary or a job still refers to one of the rows it would remove.
\<close>

definition referenced :: "db \<Rightarrow> int \<Rightarrow> bool" where
  "referenced s k =
     (list_ex (\<lambda>m. sum_documentId m = k) (NoteSummaries s)
      \<or> list_ex (\<lambda>j. job_documentId j = Some k) (SummaryJobs s))"

definition delete_NotesDocuments ::
  "(NotesDocuments_row \<Rightarrow> bool) \<Rightarrow> db \<Rightarrow> error + NotesDocuments_row list \<times> db" where
  "delete_NotesDocuments P s =
     (let (rows, returning) = delete_where P (NotesDocuments s)
      in if list_ex (\<lambda>d. referenced s (doc_id d)) returning
         then Inl ForeignKeyConstraintFailed
         else Inr (returning, s\<lparr>NotesDocuments := rows\<rparr>))"

text \<open>
  The primary keys declared in tables.ts: within a table no two rows share an id, and
  every id in use lies below the counter.
\<close>

definition pk_ok :: "('r \<Rightarrow> int) \<Rightarrow> 'r list \<Rightarrow> int \<Rightarrow> bool" where
  "pk_ok key rows next_id = (distinct (map key rows) \<and> list_all (\<lambda>r. key r < next_id) rows)"

definition wf_db :: "db \<Rightarrow> bool" where
  "wf_db s = (pk_ok doc_id (NotesDocuments s) (NotesDocuments_seq s)
            \<and> pk_ok sum_id (NoteSummaries s) (NoteSummaries_seq s)
            \<and> pk_ok job_id (SummaryJobs s) (SummaryJobs_seq s))"

text \<open>
  The references declared in tables.ts: every summary, and every job that has a
  \<open>documentId\<close>, refers to a stored document.
\<close>

definition refs_ok :: "db \<Rightarrow> bool" where
  "refs_ok s =
     (list_all (\<lambda>m. sum_documentId m \<in> set (map doc_id (NotesDocuments s))) (NoteSummaries s)
      \<and> list_all (\<lambda>j. case job_documentId j of
                         None \<Rightarrow> True
                       | Some k \<Rightarrow> k \<in> set (map doc_id (NotesDocuments s))) (SummaryJobs s))"

text \<open>The ids of the documents are generated, counting from 1.\<close>

definition ids_from_1 :: "db \<Rightarrow> bool" where
  "ids_from_1 s =
     (1 \<le> NotesDocuments_seq s \<and> list_all (\<lambda>d. 1 \<le> doc_id d) (NotesDocuments s))"

section \<open>Request context\<close>

record User =
  user_id :: string

record Locals =
  locals_user :: "User option"

record ActionAPIContext =
  context_locals :: "Locals option"

definition requireUser :: "ActionAPIContext \<Rightarrow> error + User" where
  "requireUser context =
     (let user = (case context_locals context of None \<Rightarrow> None | Some locals \<Rightarrow> locals_user locals)
      in case user of
           None \<Rightarrow> Inl (ActionError UNAUTHORIZED ''You must be signed in to perform this action.'')
         | Some u \<Rightarrow> Inr u)"

text \<open>JavaScript truthiness of an optional number: undefined, null and 0 are falsy.\<close>

definition truthy :: "int option \<Rightarrow> bool" where
  "truthy n = (case n of None \<Rightarrow> False | Some k \<Rightarrow> k \<noteq> 0)"

text \<open>\<^verbatim>\<open>a ?? b\<close>\<close>

definition nullish :: "'a option \<Rightarrow> 'a \<Rightarrow> 'a" where
  "nullish a b = (case a of None \<Rightarrow> b | Some v \<Rightarrow> v)"

definition document_not_found :: error where
  "document_not_found = ActionError NOT_FOUND ''Document not found.''"

definition job_not_found :: error where
  "job_not_found = ActionError NOT_FOUND ''Job not found.''"

section \<open>The action handlers (src/unnamed/part_000)\<close>

text \<open>
  Every handler takes its validated input, the request context, the readings of the
  clock it makes (\<^verbatim>\<open>new Date()\<close>) and the store, and returns its result or the
  error it ends with, together with the store as the statements it issued before
  returning or throwing have left it. An optional input field is \<open>None\<close> when
  it is undefined.
\<close>

subsection \<open>Documents\<close>

record createDocument_input =
  cd_title :: string
  cd_content :: string
  cd_sourceType :: "sourceType option"
  cd_sourceMeta :: "json option"
  cd_tags :: "string option"

definition createDocument ::
  "createDocument_input \<Rightarrow> ActionAPIContext \<Rightarrow> int \<Rightarrow> int \<Rightarrow> db
     \<Rightarrow> (error + NotesDocuments_row) \<times> db" where
  "createDocument input context now1 now2 s =
     (case requireUser context of
        Inl e \<Rightarrow> (Inl e, s)
      | Inr user \<Rightarrow>
          (let (document, s') =
                 insert_NotesDocuments
                   (\<lambda>i. \<lparr>doc_id = i,
                          doc_ownerId = user_id user,
                          doc_title = cd_title input,
                          doc_content = cd_content input,
                          doc_sourceType = nullish (cd_sourceType input) Manual,
                          doc_sourceMeta = cd_sourceMeta input,
                          doc_tags = cd_tags input,
                          doc_createdAt = now1,
                          doc_updatedAt = now2\<rparr>) s
           in (Inr document, s')))"

record updateDocument_input =
  ud_id :: int
  ud_title :: "string option"
  ud_content :: "string option"
  ud_sourceType :: "sourceType option"
  ud_sourceMeta :: "json option"
  ud_tags :: "string option"

text \<open>One key of the object handed to \<^verbatim>\<open>.set(...)\<close>, with its value.\<close>

datatype document_entry =
    Set_title string
  | Set_content string
  | Set_sourceType sourceType
  | Set_sourceMeta json
  | Set_tags string
  | Set_updatedAt int

fun set_document_entry :: "document_entry \<Rightarrow> NotesDocuments_row \<Rightarrow> NotesDocuments_row" where
  "set_document_entry (Set_title v) d = d\<lparr>doc_title := v\<rparr>"
| "set_document_entry (Set_content v) d = d\<lparr>doc_content := v\<rparr>"
| "set_document_entry (Set_sourceType v) d = d\<lparr>doc_sourceType := v\<rparr>"
| "set_document_entry (Set_sourceMeta v) d = d\<lparr>doc_sourceMeta := Some v\<rparr>"
| "set_document_entry (Set_tags v) d = d\<lparr>doc_tags := Some v\<rparr>"
| "set_document_entry (Set_updatedAt v) d = d\<lparr>doc_updatedAt := v\<rparr>"

definition set_document :: "document_entry list \<Rightarrow> NotesDocuments_row \<Rightarrow> NotesDocuments_row" where
  "set_document entries d = fold set_document_entry entries d"

text \<open>An entry of \<^verbatim>\<open>rest\<close> is copied when its value is not undefined.\<close>

definition defined_entry :: "('a \<Rightarrow> 'e) \<Rightarrow> 'a option \<Rightarrow> 'e list" where
  "defined_entry key v = (case v of None \<Rightarrow> [] | Some x \<Rightarrow> [key x])"

definition document_updateData :: "updateDocument_input \<Rightarrow> document_entry list" where
  "document_updateData input =
     defined_entry Set_title (ud_title input)
     @ defined_entry Set_content (ud_content input)
     @ defined_entry Set_sourceType (ud_sourceType input)
     @ defined_entry Set_sourceMeta (ud_sourceMeta input)
     @ defined_entry Set_tags (ud_tags input)"

definition updateDocument ::
  "updateDocument_input \<Rightarrow> ActionAPIContext \<Rightarrow> int \<Rightarrow> db
     \<Rightarrow> (error + NotesDocuments_row option) \<times> db" where
  "updateDocument input context now s =
     (case requireUser context of
        Inl e \<Rightarrow> (Inl e, s)
      | Inr user \<Rightarrow>
          (let scoped = (\<lambda>d. doc_id d = ud_id input \<and> doc_ownerId d = user_id user)
           in case first (limit 1 (select_where scoped (NotesDocuments s))) of
                None \<Rightarrow> (Inl document_not_found, s)
              | Some existing \<Rightarrow>
                  (let updateData = document_updateData input
                   in if length updateData = 0 then (Inr (Some existing), s)
                      else (let (rows, returning) =
                                  update_where scoped
                                    (set_document (updateData @ [Set_updatedAt now]))
                                    (NotesDocuments s)
                            in (Inr (first returning), s\<lparr>NotesDocuments := rows\<rparr>)))))"

record deleteDocument_input =
  dd_id :: int

definition deleteDocument ::
  "deleteDocument_input \<Rightarrow> ActionAPIContext \<Rightarrow> db \<Rightarrow> (error + NotesDocuments_row) \<times> db" where
  "deleteDocument input context s =
     (case requireUser context of
        Inl e \<Rightarrow> (Inl e, s)
      | Inr user \<Rightarrow>
          (case delete_NotesDocuments
                  (\<lambda>d. doc_id d = dd_id input \<and> doc_ownerId d = user_id user) s of
             Inl e \<Rightarrow> (Inl e, s)
           | Inr (returning, s') \<Rightarrow>
               (case first returning of
                  None \<Rightarrow> (Inl document_not_found, s')
                | Some deleted \<Rightarrow> (Inr deleted, s'))))"

definition listDocuments ::
  "ActionAPIContext \<Rightarrow> db \<Rightarrow> (error + NotesDocuments_row list) \<times> db" where
  "listDocuments context s =
     (case requireUser context of
        Inl e \<Rightarrow> (Inl e, s)
      | Inr user \<Rightarrow>
          (let documents = select_where (\<lambda>d. doc_ownerId d = user_id user) (NotesDocuments s)
           in (Inr documents, s)))"

record getDocumentWithSummaries_input =
  gd_id :: int

definition getDocumentWithSummaries ::
  "getDocumentWithSummaries_input \<Rightarrow> ActionAPIContext \<Rightarrow> db
     \<Rightarrow> (error + NotesDocuments_row \<times> NoteSummaries_row list) \<times> db" where
  "getDocumentWithSummaries input context s =
     (case requireUser context of
        Inl e \<Rightarrow> (Inl e, s)
      | Inr user \<Rightarrow>
          (case first (limit 1 (select_where
                   (\<lambda>d. doc_id d = gd_id input \<and> doc_ownerId d = user_id user)
                   (NotesDocuments s))) of
             None \<Rightarrow> (Inl document_not_found, s)
           | Some document \<Rightarrow>
               (let summaries =
                      select_where (\<lambda>m. sum_documentId m = gd_id input) (NoteSummaries s)
                in (Inr (document, summaries), s))))"

subsection \<open>Summaries\<close>

record createSummary_input =
  cs_documentId :: int
  cs_summaryType :: "summaryType option"
  cs_content :: string
  cs_originalLength :: "int option"
  cs_summaryLength :: "int option"
  cs_meta :: "json option"

definition createSummary ::
  "createSummary_input \<Rightarrow> ActionAPIContext \<Rightarrow> int \<Rightarrow> db
     \<Rightarrow> (error + NoteSummaries_row) \<times> db" where
  "createSummary input context now s =
     (case requireUser context of
        Inl e \<Rightarrow> (Inl e, s)
      | Inr user \<Rightarrow>
          (case first (limit 1 (select_where
                   (\<lambda>d. doc_id d = cs_documentId input \<and> doc_ownerId d = user_id user)
                   (NotesDocuments s))) of
             None \<Rightarrow> (Inl document_not_found, s)
           | Some document \<Rightarrow>
               (case insert_NoteSummaries
                        (\<lambda>i. \<lparr>sum_id = i,
                               sum_documentId = cs_documentId input,
                               sum_ownerId = user_id user,
                               sum_summaryType = nullish (cs_summaryType input) Short,
                               sum_content = cs_content input,
                               sum_originalLength = cs_originalLength input,
                               sum_summaryLength = cs_summaryLength input,
                               sum_meta = cs_meta input,
                               sum_createdAt = now\<rparr>) s of
                  Inl e \<Rightarrow> (Inl e, s)
                | Inr (summary, s') \<Rightarrow> (Inr summary, s'))))"

record listSummaries_input =
  ls_documentId :: "int option"

definition listSummaries ::
  "listSummaries_input option \<Rightarrow> ActionAPIContext \<Rightarrow> db
     \<Rightarrow> (error + NoteSummaries_row list) \<times> db" where
  "listSummaries input context s =
     (case requireUser context of
        Inl e \<Rightarrow> (Inl e, s)
      | Inr user \<Rightarrow>
          (let documents = select_where (\<lambda>d. doc_ownerId d = user_id user) (NotesDocuments s);
               documentId = Option.bind input ls_documentId;
               narrowed = filter (\<lambda>doc. Some (doc_id doc) = documentId) documents
           in if truthy documentId \<and> length narrowed = 0 then (Inl document_not_found, s)
              else (let documents = (if truthy documentId then narrowed else documents);
                        docIds = map doc_id documents;
                        summaries =
                          select_where (\<lambda>m. sum_ownerId m = user_id user) (NoteSummaries s);
                        filtered = filter (\<lambda>summary. sum_documentId summary \<in> set docIds) summaries
                    in (Inr filtered, s))))"

subsection \<open>Jobs\<close>

record createJob_input =
  cj_documentId :: "int option"
  cj_jobType :: "jobType option"
  cj_input :: "json option"
  cj_output :: "json option"
  cj_status :: "jobStatus option"

definition createJob ::
  "createJob_input \<Rightarrow> ActionAPIContext \<Rightarrow> int \<Rightarrow> db \<Rightarrow> (error + SummaryJobs_row) \<times> db" where
  "createJob input context now s =
     (case requireUser context of
        Inl e \<Rightarrow> (Inl e, s)
      | Inr user \<Rightarrow>
          (if truthy (cj_documentId input)
              \<and> first (limit 1 (select_where
                    (\<lambda>d. Some (doc_id d) = cj_documentId input \<and> doc_ownerId d = user_id user)
                    (NotesDocuments s))) = None
           then (Inl document_not_found, s)
           else (case insert_SummaryJobs
                         (\<lambda>i. \<lparr>job_id = i,
                                job_documentId = cj_documentId input,
                                job_ownerId = user_id user,
                                job_jobType = nullish (cj_jobType input) JobSummary,
                                job_input = cj_input input,
                                job_output = cj_output input,
                                job_status = nullish (cj_status input) Pending,
                                job_createdAt = now\<rparr>) s of
                   Inl e \<Rightarrow> (Inl e, s)
                 | Inr (job, s') \<Rightarrow> (Inr job, s'))))"

record updateJob_input =
  uj_id :: int
  uj_output :: "json option"
  uj_status :: "jobStatus option"

datatype job_entry = Set_output json | Set_status jobStatus

fun set_job_entry :: "job_entry \<Rightarrow> SummaryJobs_row \<Rightarrow> SummaryJobs_row" where
  "set_job_entry (Set_output v) j = j\<lparr>job_output := Some v\<rparr>"
| "set_job_entry (Set_status v) j = j\<lparr>job_status := v\<rparr>"

definition set_job :: "job_entry list \<Rightarrow> SummaryJobs_row \<Rightarrow> SummaryJobs_row" where
  "set_job entries j = fold set_job_entry entries j"

definition job_updateData :: "updateJob_input \<Rightarrow> job_entry list" where
  "job_updateData input =
     defined_entry Set_output (uj_output input) @ defined_entry Set_status (uj_status input)"

definition updateJob ::
  "updateJob_input \<Rightarrow> ActionAPIContext \<Rightarrow> db \<Rightarrow> (error + SummaryJobs_row option) \<times> db" where
  "updateJob input context s =
     (case requireUser context of
        Inl e \<Rightarrow> (Inl e, s)
      | Inr user \<Rightarrow>
          (case first (limit 1 (select_where
                   (\<lambda>j. job_id j = uj_id input \<and> job_ownerId j = user_id user)
                   (SummaryJobs s))) of
             None \<Rightarrow> (Inl job_not_found, s)
           | Some existing \<Rightarrow>
               (let updateData = job_updateData input
                in if length updateData = 0 then (Inr (Some existing), s)
                   else (let (rows, returning) =
                               update_where (\<lambda>j. job_id j = uj_id input)
                                 (set_job updateData) (SummaryJobs s)
                         in (Inr (first returning), s\<lparr>SummaryJobs := rows\<rparr>)))))"

record listJobs_input =
  lj_documentId :: "int option"
  lj_status :: "jobStatus option"

definition listJobs ::
  "listJobs_input option \<Rightarrow> ActionAPIContext \<Rightarrow> db
     \<Rightarrow> (error + SummaryJobs_row list) \<times> db" where
  "listJobs input context s =
     (case requireUser context of
        Inl e \<Rightarrow> (Inl e, s)
      | Inr user \<Rightarrow>
          (let documents = select_where (\<lambda>d. doc_ownerId d = user_id user) (NotesDocuments s);
               documentId = Option.bind input lj_documentId;
               narrowed = filter (\<lambda>doc. Some (doc_id doc) = documentId) documents
           in if truthy documentId \<and> length narrowed = 0 then (Inl document_not_found, s)
              else (let documents = (if truthy documentId then narrowed else documents);
                        allowedDocIds = set (map doc_id documents);
                        jobs = select_where (\<lambda>j. job_ownerId j = user_id user) (SummaryJobs s);
                        filtered =
                          filter (\<lambda>job.
                            let matchesDoc =
                                  (case job_documentId job of
                                     None \<Rightarrow> True
                                   | Some k \<Rightarrow>
                                       if truthy (Some k) then k \<in> allowedDocIds else True);
                                matchesStatus =
                                  (case Option.bind input lj_status of
                                     None \<Rightarrow> True
                                   | Some status \<Rightarrow> job_status job = status)
                            in matchesDoc \<and> matchesStatus) jobs
                    in (Inr filtered, s))))"

subsection \<open>The server: one request, one step of the store\<close>

datatype request =
    CreateDocument createDocument_input int int
  | UpdateDocument updateDocument_input int
  | DeleteDocument deleteDocument_input
  | ListDocuments
  | GetDocumentWithSummaries getDocumentWithSummaries_input
  | CreateSummary createSummary_input int
  | ListSummaries "listSummaries_input option"
  | CreateJob createJob_input int
  | UpdateJob updateJob_input
  | ListJobs "listJobs_input option"

fun server :: "request \<Rightarrow> ActionAPIContext \<Rightarrow> db \<Rightarrow> db" where
  "server (CreateDocument input now1 now2) context s = snd (createDocument input context now1 now2 s)"
| "server (UpdateDocument input now) context s = snd (updateDocument input context now s)"
| "server (DeleteDocument input) context s = snd (deleteDocument input context s)"
| "server ListDocuments context s = snd (listDocuments context s)"
| "server (GetDocumentWithSummaries input) context s = snd (getDocumentWithSummaries input context s)"
| "server (CreateSummary input now) context s = snd (createSummary input context now s)"
| "server (ListSummaries input) context s = snd (listSummaries input context s)"
| "server (CreateJob input now) context s = snd (createJob input context now s)"
| "server (UpdateJob input) context s = snd (updateJob input context s)"
| "server (ListJobs input) context s = snd (listJobs input context s)"

section \<open>Example callers and stores\<close>

definition alice_user :: User where
  "alice_user = \<lparr>user_id = ''alice''\<rparr>"

definition bob_user :: User where
  "bob_user = \<lparr>user_id = ''bob''\<rparr>"

definition alice :: ActionAPIContext where
  "alice = \<lparr>context_locals = Some \<lparr>locals_user = Some alice_user\<rparr>\<rparr>"

definition bob :: ActionAPIContext where
  "bob = \<lparr>context_locals = Some \<lparr>locals_user = Some bob_user\<rparr>\<rparr>"

definition meeting_input :: createDocument_input where
  "meeting_input = \<lparr>cd_title = ''Meeting'', cd_content = ''...'', cd_sourceType = None,
                     cd_sourceMeta = Some (JObj [(''a'', JNum 1)]), cd_tags = None\<rparr>"

definition alice_document :: NotesDocuments_row where
  "alice_document = \<lparr>doc_id = 1, doc_ownerId = ''alice'', doc_title = ''Meeting'',
                      doc_content = ''...'', doc_sourceType = Manual,
                      doc_sourceMeta = Some (JObj [(''a'', JNum 1)]), doc_tags = None,
                      doc_createdAt = 10, doc_updatedAt = 11\<rparr>"

definition bob_document :: NotesDocuments_row where
  "bob_document = \<lparr>doc_id = 2, doc_ownerId = ''bob'', doc_title = ''Lecture'',
                    doc_content = ''notes'', doc_sourceType = Web,
                    doc_sourceMeta = None, doc_tags = Some ''physics'',
                    doc_createdAt = 20, doc_updatedAt = 20\<rparr>"

definition alice_summary :: NoteSummaries_row where
  "alice_summary = \<lparr>sum_id = 1, sum_documentId = 1, sum_ownerId = ''alice'',
                     sum_summaryType = Short, sum_content = ''short'',
                     sum_originalLength = Some 3, sum_summaryLength = None,
                     sum_meta = None, sum_createdAt = 30\<rparr>"

definition alice_job :: SummaryJobs_row where
  "alice_job = \<lparr>job_id = 1, job_documentId = Some 1, job_ownerId = ''alice'',
                 job_jobType = JobSummary, job_input = None, job_output = None,
                 job_status = Pending, job_createdAt = 40\<rparr>"

definition bob_job :: SummaryJobs_row where
  "bob_job = \<lparr>job_id = 2, job_documentId = None, job_ownerId = ''bob'',
               job_jobType = JobRewrite, job_input = Some (JStr ''prompt''), job_output = None,
               job_status = Failed, job_createdAt = 50\<rparr>"

definition example_db :: db where
  "example_db = \<lparr>NotesDocuments = [alice_document, bob_document], NotesDocuments_seq = 3,
                  NoteSummaries = [alice_summary], NoteSummaries_seq = 2,
                  SummaryJobs = [alice_job, bob_job], SummaryJobs_seq = 3\<rparr>"

definition zero_job_input :: createJob_input where
  "zero_job_input = \<lparr>cj_documentId = Some 0, cj_jobType = None, cj_input = None,
                      cj_output = None, cj_status = Some Failed\<rparr>"

lemmas example_defs =
  alice_user_def bob_user_def alice_def bob_def meeting_input_def alice_document_def
  bob_document_def alice_summary_def alice_job_def bob_job_def example_db_def
  zero_job_input_def

lemmas eval_defs =
  requireUser_def truthy_def nullish_def select_where_def limit_def first_def update_where_def
  delete_where_def insert_NotesDocuments_def insert_NoteSummaries_def insert_SummaryJobs_def
  referenced_def delete_NotesDocuments_def
  document_not_found_def job_not_found_def defined_entry_def Let_def

section \<open>The store and its primary keys\<close>

lemma first_limit_select: "first (limit (Suc 0) (select_where P rows)) = List.find P rows"
  by (induction rows) (simp_all add: first_def limit_def select_where_def)

lemma pk_find:
  "distinct (map key rows) \<Longrightarrow> r \<in> set rows \<Longrightarrow> key r = i \<Longrightarrow> Q r
     \<Longrightarrow> List.find (\<lambda>x. key x = i \<and> Q x) rows = Some r"
  by (induction rows) auto

lemma pk_same:
  "distinct (map key rows) \<Longrightarrow> r \<in> set rows \<Longrightarrow> r' \<in> set rows \<Longrightarrow> key r = key r' \<Longrightarrow> r = r'"
  by (auto simp: distinct_map dest: inj_onD)

lemma filter_none:
  "\<forall>r \<in> set rows. \<not> P r \<Longrightarrow> filter (\<lambda>r. \<not> P r) rows = rows \<and> filter P rows = []"
  by (induction rows) auto

lemma pk_ok_insert:
  "pk_ok key rows n \<Longrightarrow> key r = n \<Longrightarrow> pk_ok key (rows @ [r]) (n + 1)"
  by (auto simp: pk_ok_def list_all_iff)

lemma map_key_update:
  "(\<And>r. key (f r) = key r) \<Longrightarrow> map key (map (\<lambda>r. if P r then f r else r) rows) = map key rows"
  by (induction rows) auto

lemma pk_ok_update:
  assumes "\<And>r. key (f r) = key r" and "pk_ok key rows n"
  shows "pk_ok key (map (\<lambda>r. if P r then f r else r) rows) n"
proof -
  let ?g = "\<lambda>r. if P r then f r else r"
  have "map key (map ?g rows) = map key rows"
    using assms(1) by (rule map_key_update)
  moreover have "list_all (\<lambda>r. key r < n) (map ?g rows) = list_all (\<lambda>r. key r < n) rows"
    by (induction rows) (simp_all add: assms(1))
  ultimately show ?thesis
    using assms(2) by (simp only: pk_ok_def)
qed

lemma pk_ok_filter: "pk_ok key rows n \<Longrightarrow> pk_ok key (filter Q rows) n"
  by (simp add: pk_ok_def distinct_map_filter list_all_iff)

lemma wf_db_empty: "wf_db empty_db"
  by (simp add: wf_db_def pk_ok_def empty_db_def)

lemma wf_db_example: "wf_db example_db"
  by (simp add: wf_db_def pk_ok_def example_defs)

lemma requireUser_alice: "requireUser alice = Inr alice_user"
  by (simp add: requireUser_def alice_def)

lemma requireUser_bob: "requireUser bob = Inr bob_user"
  by (simp add: requireUser_def bob_def)

lemma pk_filter:
  "distinct (map key rows) \<Longrightarrow> r \<in> set rows \<Longrightarrow> filter (\<lambda>x. key x = key r) rows = [r]"
proof (induction rows)
  case Nil
  then show ?case by simp
next
  case (Cons x xs)
  show ?case
  proof (cases "x = r")
    case True
    have "\<forall>y \<in> set xs. key y \<noteq> key r"
      using Cons.prems(1) True by (auto simp: image_iff)
    then have "filter (\<lambda>y. key y = key r) xs = []"
      by (simp add: filter_empty_conv)
    then show ?thesis using True by simp
  next
    case False
    then have "r \<in> set xs" using Cons.prems(2) by simp
    moreover have "key x \<noteq> key r"
      using Cons.prems(1) \<open>r \<in> set xs\<close> by (auto simp: image_iff)
    ultimately show ?thesis using Cons by simp
  qed
qed

lemma others_update:
  "\<forall>r \<in> set rows. P r \<longrightarrow> owner r = u \<Longrightarrow> (\<And>r. owner (f r) = owner r)
     \<Longrightarrow> filter (\<lambda>r. owner r \<noteq> u) (map (\<lambda>r. if P r then f r else r) rows)
         = filter (\<lambda>r. owner r \<noteq> u) rows"
  by (induction rows) auto

lemma others_delete:
  "\<forall>r \<in> set rows. P r \<longrightarrow> owner r = u
     \<Longrightarrow> filter (\<lambda>r. owner r \<noteq> u) (filter (\<lambda>r. \<not> P r) rows) = filter (\<lambda>r. owner r \<noteq> u) rows"
  by (induction rows) auto

lemma others_new:
  assumes "filter (\<lambda>r. owner r \<noteq> u) new = filter (\<lambda>r. owner r \<noteq> u) old"
  shows "\<forall>r \<in> set new - set old. owner r = u"
proof
  fix r assume r: "r \<in> set new - set old"
  show "owner r = u"
  proof (rule ccontr)
    assume "owner r \<noteq> u"
    with r have "r \<in> set (filter (\<lambda>r. owner r \<noteq> u) new)" by simp
    then have "r \<in> set (filter (\<lambda>r. owner r \<noteq> u) old)" using assms by simp
    with r show False by simp
  qed
qed

section \<open>What each handler does to the store\<close>

lemma set_document_keeps:
  "doc_id (set_document es d) = doc_id d \<and> doc_ownerId (set_document es d) = doc_ownerId d
   \<and> doc_createdAt (set_document es d) = doc_createdAt d"
  unfolding set_document_def
proof (induction es arbitrary: d)
  case Nil
  show ?case by simp
next
  case (Cons e es)
  show ?case by (cases e) (simp_all add: Cons.IH)
qed

lemma set_job_keeps:
  "job_id (set_job es j) = job_id j \<and> job_ownerId (set_job es j) = job_ownerId j
   \<and> job_documentId (set_job es j) = job_documentId j \<and> job_jobType (set_job es j) = job_jobType j
   \<and> job_input (set_job es j) = job_input j \<and> job_createdAt (set_job es j) = job_createdAt j"
  unfolding set_job_def
proof (induction es arbitrary: j)
  case Nil
  show ?case by simp
next
  case (Cons e es)
  show ?case by (cases e) (simp_all add: Cons.IH)
qed

lemma document_updateData_empty:
  "document_updateData input = [] \<longleftrightarrow>
     ud_title input = None \<and> ud_content input = None \<and> ud_sourceType input = None
     \<and> ud_sourceMeta input = None \<and> ud_tags input = None"
  by (auto simp: document_updateData_def defined_entry_def split: option.splits)

lemma createDocument_state:
  "requireUser context = Inr u \<Longrightarrow>
   \<exists>D. doc_id D = NotesDocuments_seq s \<and> doc_ownerId D = user_id u
      \<and> doc_sourceMeta D = cd_sourceMeta input
      \<and> createDocument input context now1 now2 s =
          (Inr D, s\<lparr>NotesDocuments := NotesDocuments s @ [D],
                    NotesDocuments_seq := NotesDocuments_seq s + 1\<rparr>)"
  by (simp add: createDocument_def insert_NotesDocuments_def Let_def)

lemma createSummary_state:
  "requireUser context = Inr u \<Longrightarrow>
   createSummary input context now s = (r, s') \<Longrightarrow>
   s' = s \<or> (\<exists>M. sum_id M = NoteSummaries_seq s \<and> sum_ownerId M = user_id u \<and> r = Inr M
      \<and> sum_documentId M \<in> doc_id ` set (NotesDocuments s)
      \<and> s' = s\<lparr>NoteSummaries := NoteSummaries s @ [M],
               NoteSummaries_seq := NoteSummaries_seq s + 1\<rparr>)"
  by (auto simp: createSummary_def insert_NoteSummaries_def Let_def
      split: option.splits if_splits)

lemma createJob_state:
  "requireUser context = Inr u \<Longrightarrow>
   createJob input context now s = (r, s') \<Longrightarrow>
   s' = s \<or> (\<exists>J. job_id J = SummaryJobs_seq s \<and> job_ownerId J = user_id u \<and> r = Inr J
      \<and> job_documentId J = cj_documentId input
      \<and> (\<forall>k. job_documentId J = Some k \<longrightarrow> k \<in> doc_id ` set (NotesDocuments s))
      \<and> s' = s\<lparr>SummaryJobs := SummaryJobs s @ [J],
               SummaryJobs_seq := SummaryJobs_seq s + 1\<rparr>)"
  by (auto simp: createJob_def insert_SummaryJobs_def Let_def split: if_splits)

lemma updateDocument_state:
  "requireUser context = Inr u \<Longrightarrow>
   updateDocument input context now s = (r, s') \<Longrightarrow>
   s' = s \<or> s' = s\<lparr>NotesDocuments :=
                  map (\<lambda>d. if doc_id d = ud_id input \<and> doc_ownerId d = user_id u
                           then set_document (document_updateData input @ [Set_updatedAt now]) d
                           else d) (NotesDocuments s)\<rparr>"
  by (auto simp: updateDocument_def update_where_def Let_def split: option.splits if_splits)

lemma deleteDocument_state:
  "requireUser context = Inr u \<Longrightarrow>
   snd (deleteDocument input context s) = s
   \<or> (\<not> list_ex (\<lambda>d. referenced s (doc_id d))
           (filter (\<lambda>d. doc_id d = dd_id input \<and> doc_ownerId d = user_id u) (NotesDocuments s))
      \<and> snd (deleteDocument input context s) =
          s\<lparr>NotesDocuments :=
              filter (\<lambda>d. \<not> (doc_id d = dd_id input \<and> doc_ownerId d = user_id u))
                (NotesDocuments s)\<rparr>)"
  by (auto simp: deleteDocument_def delete_NotesDocuments_def delete_where_def Let_def
      split: option.splits)

lemma updateJob_state:
  "requireUser context = Inr u \<Longrightarrow>
   updateJob input context s = (r, s') \<Longrightarrow>
   s' = s \<or> ((\<exists>e \<in> set (SummaryJobs s). job_id e = uj_id input \<and> job_ownerId e = user_id u)
            \<and> s' = s\<lparr>SummaryJobs :=
                  map (\<lambda>j. if job_id j = uj_id input then set_job (job_updateData input) j else j)
                    (SummaryJobs s)\<rparr>)"
  by (auto simp: updateJob_def update_where_def Let_def first_limit_select find_Some_iff
      split: option.splits if_splits)

lemma read_only_state:
  "snd (listDocuments context s) = s"
  "snd (getDocumentWithSummaries gi context s) = s"
  "snd (listSummaries li context s) = s"
  "snd (listJobs ji context s) = s"
  by (auto simp: listDocuments_def getDocumentWithSummaries_def listSummaries_def listJobs_def
      Let_def split: sum.splits option.splits)

lemma set_job_updateData:
  "set_job (job_updateData input) j =
     j\<lparr>job_output := (case uj_output input of None \<Rightarrow> job_output j | Some v \<Rightarrow> Some v),
       job_status := (case uj_status input of None \<Rightarrow> job_status j | Some v \<Rightarrow> v)\<rparr>"
  by (simp add: set_job_def job_updateData_def defined_entry_def split: option.splits)

lemma job_updateData_empty:
  "job_updateData input = [] \<longleftrightarrow> uj_output input = None \<and> uj_status input = None"
  by (auto simp: job_updateData_def defined_entry_def split: option.splits)

lemma unauthorized_state:
  "requireUser context = Inl e \<Longrightarrow> server req context s = s"
  by (cases req)
    (simp_all add: createDocument_def updateDocument_def deleteDocument_def listDocuments_def
      getDocumentWithSummaries_def createSummary_def listSummaries_def createJob_def
      updateJob_def listJobs_def)

lemma server_keeps_jobs:
  "take (length (SummaryJobs s)) (map job_id (SummaryJobs (server req context s)))
     = map job_id (SummaryJobs s)"
proof (cases "requireUser context")
  case (Inl e)
  then show ?thesis by (simp add: unauthorized_state)
next
  case (Inr u)
  show ?thesis
  proof (cases req)
    case (CreateDocument input now1 now2)
    from createDocument_state [OF Inr, of s input now1 now2]
    show ?thesis using CreateDocument by auto
  next
    case (UpdateDocument input now)
    obtain r s' where e: "updateDocument input context now s = (r, s')"
      by (cases "updateDocument input context now s")
    from updateDocument_state [OF Inr e] show ?thesis
      using UpdateDocument e by auto
  next
    case (DeleteDocument input)
    from deleteDocument_state [OF Inr, of input s] show ?thesis
      using DeleteDocument by auto
  next
    case ListDocuments
    then show ?thesis by (simp add: read_only_state)
  next
    case (GetDocumentWithSummaries input)
    then show ?thesis by (simp add: read_only_state)
  next
    case (CreateSummary input now)
    obtain r s' where e: "createSummary input context now s = (r, s')"
      by (cases "createSummary input context now s")
    from createSummary_state [OF Inr e] show ?thesis
      using CreateSummary e by auto
  next
    case (ListSummaries input)
    then show ?thesis by (simp add: read_only_state)
  next
    case (CreateJob input now)
    obtain r s' where e: "createJob input context now s = (r, s')"
      by (cases "createJob input context now s")
    from createJob_state [OF Inr e] show ?thesis
      using CreateJob e by auto
  next
    case (UpdateJob input)
    obtain r s' where e: "updateJob input context s = (r, s')"
      by (cases "updateJob input context s")
    have "map job_id (map (\<lambda>j. if job_id j = uj_id input then set_job (job_updateData input) j else j)
                    (SummaryJobs s)) = map job_id (SummaryJobs s)"
      by (rule map_key_update) (simp add: set_job_keeps)
    with updateJob_state [OF Inr e] show ?thesis
      using UpdateJob e by auto
  next
    case (ListJobs input)
    then show ?thesis by (simp add: read_only_state)
  qed
qed

lemma server_preserves_wf:
  assumes wf: "wf_db s"
  shows "wf_db (server req context s)"
proof (cases "requireUser context")
  case (Inl e)
  then show ?thesis using wf by (simp add: unauthorized_state)
next
  case (Inr u)
  show ?thesis
  proof (cases req)
    case (CreateDocument input now1 now2)
    from createDocument_state [OF Inr, of s input now1 now2]
    show ?thesis using CreateDocument wf by (auto simp: wf_db_def pk_ok_insert)
  next
    case (UpdateDocument input now)
    obtain r s' where e: "updateDocument input context now s = (r, s')"
      by (cases "updateDocument input context now s")
    have "pk_ok doc_id
            (map (\<lambda>d. if doc_id d = ud_id input \<and> doc_ownerId d = user_id u
                     then set_document (document_updateData input @ [Set_updatedAt now]) d
                     else d) (NotesDocuments s)) (NotesDocuments_seq s)"
      using wf by (intro pk_ok_update) (simp_all add: set_document_keeps wf_db_def)
    with updateDocument_state [OF Inr e] show ?thesis
      using UpdateDocument e wf by (auto simp: wf_db_def)
  next
    case (DeleteDocument input)
    from deleteDocument_state [OF Inr, of input s] show ?thesis
      using DeleteDocument wf by (auto simp: wf_db_def pk_ok_filter)
  next
    case ListDocuments
    then show ?thesis using wf by (simp add: read_only_state)
  next
    case (GetDocumentWithSummaries input)
    then show ?thesis using wf by (simp add: read_only_state)
  next
    case (CreateSummary input now)
    obtain r s' where e: "createSummary input context now s = (r, s')"
      by (cases "createSummary input context now s")
    from createSummary_state [OF Inr e] show ?thesis
      using CreateSummary e wf by (auto simp: wf_db_def pk_ok_insert)
  next
    case (ListSummaries input)
    then show ?thesis using wf by (simp add: read_only_state)
  next
    case (CreateJob input now)
    obtain r s' where e: "createJob input context now s = (r, s')"
      by (cases "createJob input context now s")
    from createJob_state [OF Inr e] show ?thesis
      using CreateJob e wf by (auto simp: wf_db_def pk_ok_insert)
  next
    case (UpdateJob input)
    obtain r s' where e: "updateJob input context s = (r, s')"
      by (cases "updateJob input context s")
    have "pk_ok job_id
            (map (\<lambda>j. if job_id j = uj_id input then set_job (job_updateData input) j else j)
               (SummaryJobs s)) (SummaryJobs_seq s)"
      using wf by (intro pk_ok_update) (simp_all add: set_job_keeps wf_db_def)
    with updateJob_state [OF Inr e] show ?thesis
      using UpdateJob e wf by (auto simp: wf_db_def)
  next
    case (ListJobs input)
    then show ?thesis using wf by (simp add: read_only_state)
  qed
qed

section \<open>The references and the generated ids are invariants\<close>

lemma refs_ok_empty: "refs_ok empty_db"
  by (simp add: refs_ok_def empty_db_def)

lemma ids_from_1_empty: "ids_from_1 empty_db"
  by (simp add: ids_from_1_def empty_db_def)

lemma refs_ok_example: "refs_ok example_db"
  by (simp add: refs_ok_def example_defs)

lemma ids_from_1_example: "ids_from_1 example_db"
  by (simp add: ids_from_1_def example_defs)

lemma refs_ok_iff:
  "refs_ok s \<longleftrightarrow>
     (\<forall>m \<in> set (NoteSummaries s). sum_documentId m \<in> doc_id ` set (NotesDocuments s))
     \<and> (\<forall>j \<in> set (SummaryJobs s). \<forall>k. job_documentId j = Some k
            \<longrightarrow> k \<in> doc_id ` set (NotesDocuments s))"
  by (auto simp: refs_ok_def list_all_iff split: option.splits)

lemma referenced_iff:
  "referenced s k \<longleftrightarrow>
     (\<exists>m \<in> set (NoteSummaries s). sum_documentId m = k)
     \<or> (\<exists>j \<in> set (SummaryJobs s). job_documentId j = Some k)"
  by (simp add: referenced_def list_ex_iff)

lemma image_key_update:
  "(\<And>r. key (f r) = key r) \<Longrightarrow> key ` set (map (\<lambda>r. if P r then f r else r) rows) = key ` set rows"
  by (induction rows) auto

lemma list_all_key_update:
  "(\<And>r. key (f r) = key r)
     \<Longrightarrow> list_all (\<lambda>r. Q (key r)) (map (\<lambda>r. if P r then f r else r) rows)
         = list_all (\<lambda>r. Q (key r)) rows"
  by (induction rows) simp_all

lemma refs_ok_delete:
  assumes "refs_ok s"
    and "\<not> list_ex (\<lambda>d. referenced s (doc_id d)) (filter P (NotesDocuments s))"
  shows "refs_ok (s\<lparr>NotesDocuments := filter (\<lambda>d. \<not> P d) (NotesDocuments s)\<rparr>)"
proof -
  have kept: "k \<in> doc_id ` set (filter (\<lambda>d. \<not> P d) (NotesDocuments s))"
    if "referenced s k" and "k \<in> doc_id ` set (NotesDocuments s)" for k
  proof -
    from that(2) obtain d where d: "d \<in> set (NotesDocuments s)" "doc_id d = k"
      by auto
    have "\<not> P d"
      using assms(2) d that(1) by (auto simp: list_ex_iff)
    with d show ?thesis by auto
  qed
  show ?thesis
    unfolding refs_ok_iff
  proof (intro conjI ballI allI impI)
    fix m assume m: "m \<in> set (NoteSummaries (s\<lparr>NotesDocuments := filter (\<lambda>d. \<not> P d) (NotesDocuments s)\<rparr>))"
    then have "referenced s (sum_documentId m)"
      by (auto simp: referenced_iff)
    moreover have "sum_documentId m \<in> doc_id ` set (NotesDocuments s)"
      using assms(1) m by (simp add: refs_ok_iff)
    ultimately show "sum_documentId m
        \<in> doc_id ` set (NotesDocuments (s\<lparr>NotesDocuments := filter (\<lambda>d. \<not> P d) (NotesDocuments s)\<rparr>))"
      using kept by simp
  next
    fix j k
    assume j: "j \<in> set (SummaryJobs (s\<lparr>NotesDocuments := filter (\<lambda>d. \<not> P d) (NotesDocuments s)\<rparr>))"
      and k: "job_documentId j = Some k"
    then have "referenced s k"
      by (auto simp: referenced_iff)
    moreover have "k \<in> doc_id ` set (NotesDocuments s)"
      using assms(1) j k by (simp add: refs_ok_iff)
    ultimately show "k
        \<in> doc_id ` set (NotesDocuments (s\<lparr>NotesDocuments := filter (\<lambda>d. \<not> P d) (NotesDocuments s)\<rparr>))"
      using kept by simp
  qed
qed

lemma server_preserves_refs:
  assumes ok: "refs_ok s"
  shows "refs_ok (server req context s)"
proof (cases "requireUser context")
  case (Inl e)
  then show ?thesis using ok by (simp add: unauthorized_state)
next
  case (Inr u)
  show ?thesis
  proof (cases req)
    case (CreateDocument input now1 now2)
    from createDocument_state [OF Inr, of s input now1 now2]
    show ?thesis using CreateDocument ok by (auto simp: refs_ok_iff)
  next
    case (UpdateDocument input now)
    obtain r s' where e: "updateDocument input context now s = (r, s')"
      by (cases "updateDocument input context now s")
    have "doc_id ` set (map (\<lambda>d. if doc_id d = ud_id input \<and> doc_ownerId d = user_id u
                     then set_document (document_updateData input @ [Set_updatedAt now]) d
                     else d) (NotesDocuments s)) = doc_id ` set (NotesDocuments s)"
      by (rule image_key_update) (simp add: set_document_keeps)
    with updateDocument_state [OF Inr e] show ?thesis
      using UpdateDocument e ok by (auto simp: refs_ok_iff)
  next
    case (DeleteDocument input)
    from deleteDocument_state [OF Inr, of input s] show ?thesis
    proof (elim disjE conjE)
      assume "snd (deleteDocument input context s) = s"
      then show ?thesis using DeleteDocument ok by simp
    next
      assume n: "\<not> list_ex (\<lambda>d. referenced s (doc_id d))
           (filter (\<lambda>d. doc_id d = dd_id input \<and> doc_ownerId d = user_id u) (NotesDocuments s))"
        and e: "snd (deleteDocument input context s) =
          s\<lparr>NotesDocuments :=
              filter (\<lambda>d. \<not> (doc_id d = dd_id input \<and> doc_ownerId d = user_id u))
                (NotesDocuments s)\<rparr>"
      show ?thesis
        unfolding DeleteDocument server.simps e by (rule refs_ok_delete [OF ok n])
    qed
  next
    case ListDocuments
    then show ?thesis using ok by (simp add: read_only_state)
  next
    case (GetDocumentWithSummaries input)
    then show ?thesis using ok by (simp add: read_only_state)
  next
    case (CreateSummary input now)
    obtain r s' where e: "createSummary input context now s = (r, s')"
      by (cases "createSummary input context now s")
    from createSummary_state [OF Inr e] show ?thesis
      using CreateSummary e ok by (auto simp: refs_ok_iff)
  next
    case (ListSummaries input)
    then show ?thesis using ok by (simp add: read_only_state)
  next
    case (CreateJob input now)
    obtain r s' where e: "createJob input context now s = (r, s')"
      by (cases "createJob input context now s")
    from createJob_state [OF Inr e] show ?thesis
      using CreateJob e ok by (auto simp: refs_ok_iff)
  next
    case (UpdateJob input)
    obtain r s' where e: "updateJob input context s = (r, s')"
      by (cases "updateJob input context s")
    from updateJob_state [OF Inr e] show ?thesis
      using UpdateJob e ok by (auto simp: refs_ok_iff set_job_keeps)
  next
    case (ListJobs input)
    then show ?thesis using ok by (simp add: read_only_state)
  qed
qed

lemma server_preserves_ids:
  assumes ok: "ids_from_1 s"
  shows "ids_from_1 (server req context s)"
proof (cases "requireUser context")
  case (Inl e)
  then show ?thesis using ok by (simp add: unauthorized_state)
next
  case (Inr u)
  show ?thesis
  proof (cases req)
    case (CreateDocument input now1 now2)
    from createDocument_state [OF Inr, of s input now1 now2]
    show ?thesis using CreateDocument ok by (auto simp: ids_from_1_def list_all_iff)
  next
    case (UpdateDocument input now)
    obtain r s' where e: "updateDocument input context now s = (r, s')"
      by (cases "updateDocument input context now s")
    have "list_all (\<lambda>d. 1 \<le> doc_id d)
            (map (\<lambda>d. if doc_id d = ud_id input \<and> doc_ownerId d = user_id u
                     then set_document (document_updateData input @ [Set_updatedAt now]) d
                     else d) (NotesDocuments s))
          = list_all (\<lambda>d. 1 \<le> doc_id d) (NotesDocuments s)"
      by (rule list_all_key_update) (simp add: set_document_keeps)
    with updateDocument_state [OF Inr e] show ?thesis
      using UpdateDocument e ok by (auto simp: ids_from_1_def)
  next
    case (DeleteDocument input)
    from deleteDocument_state [OF Inr, of input s] show ?thesis
      using DeleteDocument ok by (auto simp: ids_from_1_def list_all_iff)
  next
    case ListDocuments
    then show ?thesis using ok by (simp add: read_only_state)
  next
    case (GetDocumentWithSummaries input)
    then show ?thesis using ok by (simp add: read_only_state)
  next
    case (CreateSummary input now)
    obtain r s' where e: "createSummary input context now s = (r, s')"
      by (cases "createSummary input context now s")
    from createSummary_state [OF Inr e] show ?thesis
      using CreateSummary e ok by (auto simp: ids_from_1_def)
  next
    case (ListSummaries input)
    then show ?thesis using ok by (simp add: read_only_state)
  next
    case (CreateJob input now)
    obtain r s' where e: "createJob input context now s = (r, s')"
      by (cases "createJob input context now s")
    from createJob_state [OF Inr e] show ?thesis
      using CreateJob e ok by (auto simp: ids_from_1_def)
  next
    case (UpdateJob input)
    obtain r s' where e: "updateJob input context s = (r, s')"
      by (cases "updateJob input context s")
    from updateJob_state [OF Inr e] show ?thesis
      using UpdateJob e ok by (auto simp: ids_from_1_def)
  next
    case (ListJobs input)
    then show ?thesis using ok by (simp add: read_only_state)
  qed
qed

lemma truthy_None: "truthy None = False"
  by (simp add: truthy_def)

lemma no_document_0: "ids_from_1 s \<Longrightarrow> 0 \<notin> doc_id ` set (NotesDocuments s)"
  by (auto simp: ids_from_1_def list_all_iff)

lemma server_keeps_others_documents:
  assumes auth: "requireUser context = Inr v"
  shows "filter (\<lambda>d. doc_ownerId d \<noteq> user_id v) (NotesDocuments (server req context s))
           = filter (\<lambda>d. doc_ownerId d \<noteq> user_id v) (NotesDocuments s)"
proof (cases req)
  case (CreateDocument input now1 now2)
  from createDocument_state [OF auth, of s input now1 now2]
  show ?thesis using CreateDocument by auto
next
  case (UpdateDocument input now)
  obtain r s' where e: "updateDocument input context now s = (r, s')"
    by (cases "updateDocument input context now s")
  have "filter (\<lambda>d. doc_ownerId d \<noteq> user_id v)
          (map (\<lambda>d. if doc_id d = ud_id input \<and> doc_ownerId d = user_id v
                     then set_document (document_updateData input @ [Set_updatedAt now]) d
                     else d) (NotesDocuments s))
        = filter (\<lambda>d. doc_ownerId d \<noteq> user_id v) (NotesDocuments s)"
    by (rule others_update) (simp_all add: set_document_keeps)
  with updateDocument_state [OF auth e] show ?thesis
    using UpdateDocument e by auto
next
  case (DeleteDocument input)
  have "filter (\<lambda>d. doc_ownerId d \<noteq> user_id v)
          (filter (\<lambda>d. \<not> (doc_id d = dd_id input \<and> doc_ownerId d = user_id v)) (NotesDocuments s))
        = filter (\<lambda>d. doc_ownerId d \<noteq> user_id v) (NotesDocuments s)"
    by (rule others_delete) simp
  with deleteDocument_state [OF auth, of input s] show ?thesis
    using DeleteDocument by auto
next
  case ListDocuments
  then show ?thesis by (simp add: read_only_state)
next
  case (GetDocumentWithSummaries input)
  then show ?thesis by (simp add: read_only_state)
next
  case (CreateSummary input now)
  obtain r s' where e: "createSummary input context now s = (r, s')"
    by (cases "createSummary input context now s")
  from createSummary_state [OF auth e] show ?thesis
    using CreateSummary e by auto
next
  case (ListSummaries input)
  then show ?thesis by (simp add: read_only_state)
next
  case (CreateJob input now)
  obtain r s' where e: "createJob input context now s = (r, s')"
    by (cases "createJob input context now s")
  from createJob_state [OF auth e] show ?thesis
    using CreateJob e by auto
next
  case (UpdateJob input)
  obtain r s' where e: "updateJob input context s = (r, s')"
    by (cases "updateJob input context s")
  from updateJob_state [OF auth e] show ?thesis
    using UpdateJob e by auto
next
  case (ListJobs input)
  then show ?thesis by (simp add: read_only_state)
qed

section \<open>The claims\<close>

text \<open>
  C1. A document \<open>D\<close> that user \<open>U\<close> creates with Create Document is stored, and in every
  state \<open>t\<close> of the store that holds \<open>D\<close>, however many requests later, List Documents
  returns to \<open>U\<close> a list that includes \<open>D\<close>. No request of a user \<open>V\<close> with another id takes
  \<open>D\<close> out of the store, and in no state does List Documents return \<open>D\<close> to such a \<open>V\<close>.
\<close>

theorem listDocuments_after_createDocument:
  assumes "requireUser context = Inr u"
    and "requireUser context' = Inr v" and "user_id v \<noteq> user_id u"
    and "createDocument input context now1 now2 s = (r, s')"
  shows "\<exists>D. r = Inr D \<and> D \<in> set (NotesDocuments s')
           \<and> (\<forall>t. D \<in> set (NotesDocuments t)
                 \<longrightarrow> (\<exists>docs. listDocuments context t = (Inr docs, t) \<and> D \<in> set docs))
           \<and> (\<forall>t req. D \<in> set (NotesDocuments t)
                 \<longrightarrow> D \<in> set (NotesDocuments (server req context' t)))
           \<and> (\<forall>t. \<exists>docs'. listDocuments context' t = (Inr docs', t) \<and> D \<notin> set docs')"
proof -
  from createDocument_state [OF assms(1), of s input now1 now2] assms(4)
  obtain D where D: "doc_ownerId D = user_id u" "r = Inr D"
      "s' = s\<lparr>NotesDocuments := NotesDocuments s @ [D],
               NotesDocuments_seq := NotesDocuments_seq s + 1\<rparr>"
    by auto
  have stored: "D \<in> set (NotesDocuments s')"
    using D(3) by simp
  have own: "\<exists>docs. listDocuments context t = (Inr docs, t) \<and> D \<in> set docs"
    if "D \<in> set (NotesDocuments t)" for t
    using that assms(1) D(1) by (simp add: listDocuments_def select_where_def)
  have kept: "D \<in> set (NotesDocuments (server req context' t))"
    if "D \<in> set (NotesDocuments t)" for t req
  proof -
    have "D \<in> set (filter (\<lambda>d. doc_ownerId d \<noteq> user_id v) (NotesDocuments t))"
      using that D(1) assms(3) by simp
    then have "D \<in> set (filter (\<lambda>d. doc_ownerId d \<noteq> user_id v)
                           (NotesDocuments (server req context' t)))"
      by (simp only: server_keeps_others_documents [OF assms(2)])
    then show ?thesis by simp
  qed
  have other: "\<exists>docs'. listDocuments context' t = (Inr docs', t) \<and> D \<notin> set docs'" for t
    using assms(2,3) D(1) by (simp add: listDocuments_def select_where_def)
  show ?thesis
    using D(2) stored own kept other by blast
qed

theorem listDocuments_after_createDocument_witness:
  "requireUser alice = Inr alice_user \<and> requireUser bob = Inr bob_user
   \<and> user_id bob_user \<noteq> user_id alice_user
   \<and> (\<exists>D. fst (createDocument meeting_input alice 60 61 example_db) = Inr D
        \<and> D \<in> set (NotesDocuments
                     (server (DeleteDocument \<lparr>dd_id = 3\<rparr>) bob
                        (snd (createDocument meeting_input alice 60 61 example_db))))
        \<and> (\<exists>docs. listDocuments alice
                      (server (DeleteDocument \<lparr>dd_id = 3\<rparr>) bob
                         (snd (createDocument meeting_input alice 60 61 example_db)))
                    = (Inr docs,
                       server (DeleteDocument \<lparr>dd_id = 3\<rparr>) bob
                         (snd (createDocument meeting_input alice 60 61 example_db)))
                 \<and> D \<in> set docs)
        \<and> (\<exists>docs'. listDocuments bob
                      (server (DeleteDocument \<lparr>dd_id = 3\<rparr>) bob
                         (snd (createDocument meeting_input alice 60 61 example_db)))
                    = (Inr docs',
                       server (DeleteDocument \<lparr>dd_id = 3\<rparr>) bob
                         (snd (createDocument meeting_input alice 60 61 example_db)))
                 \<and> D \<notin> set docs'))"
proof -
  let ?s1 = "snd (createDocument meeting_input alice 60 61 example_db)"
  let ?s2 = "server (DeleteDocument \<lparr>dd_id = 3\<rparr>) bob ?s1"
  have n: "user_id bob_user \<noteq> user_id alice_user"
    by (simp add: alice_user_def bob_user_def)
  have c: "createDocument meeting_input alice 60 61 example_db =
             (fst (createDocument meeting_input alice 60 61 example_db), ?s1)"
    by simp
  from listDocuments_after_createDocument [OF requireUser_alice requireUser_bob n c]
  obtain D where D: "fst (createDocument meeting_input alice 60 61 example_db) = Inr D"
      "D \<in> set (NotesDocuments ?s1)"
      "\<forall>t. D \<in> set (NotesDocuments t)
          \<longrightarrow> (\<exists>docs. listDocuments alice t = (Inr docs, t) \<and> D \<in> set docs)"
      "\<forall>t req. D \<in> set (NotesDocuments t) \<longrightarrow> D \<in> set (NotesDocuments (server req bob t))"
      "\<forall>t. \<exists>docs'. listDocuments bob t = (Inr docs', t) \<and> D \<notin> set docs'"
    by blast
  from D(2,4) have s2: "D \<in> set (NotesDocuments ?s2)"
    by blast
  from D(3) s2 have "\<exists>docs. listDocuments alice ?s2 = (Inr docs, ?s2) \<and> D \<in> set docs"
    by blast
  moreover from D(5) have "\<exists>docs'. listDocuments bob ?s2 = (Inr docs', ?s2) \<and> D \<notin> set docs'"
    by blast
  ultimately show ?thesis
    using requireUser_alice requireUser_bob n D(1) s2 by blast
qed

text \<open>
  C2. Every mutating operation is ownership-scoped. Whatever request a caller sends to a
  store whose primary keys are unique, in each of the three tables the rows owned by
  other users are afterwards exactly the rows that were there before, in the same order:
  no update or delete statement changes or removes a row with another \<open>ownerId\<close>, the
  update statement of Update Job (which filters by id alone) included. Every row that
  is in a table afterwards and was not before, inserted or rewritten, carries the
  caller's id as \<open>ownerId\<close>.
\<close>

theorem ownership_scoped:
  assumes wf: "wf_db s" and auth: "requireUser context = Inr u"
  shows "filter (\<lambda>d. doc_ownerId d \<noteq> user_id u) (NotesDocuments (server req context s))
           = filter (\<lambda>d. doc_ownerId d \<noteq> user_id u) (NotesDocuments s)
       \<and> filter (\<lambda>m. sum_ownerId m \<noteq> user_id u) (NoteSummaries (server req context s))
           = filter (\<lambda>m. sum_ownerId m \<noteq> user_id u) (NoteSummaries s)
       \<and> filter (\<lambda>j. job_ownerId j \<noteq> user_id u) (SummaryJobs (server req context s))
           = filter (\<lambda>j. job_ownerId j \<noteq> user_id u) (SummaryJobs s)
       \<and> (\<forall>d \<in> set (NotesDocuments (server req context s)) - set (NotesDocuments s).
             doc_ownerId d = user_id u)
       \<and> (\<forall>m \<in> set (NoteSummaries (server req context s)) - set (NoteSummaries s).
             sum_ownerId m = user_id u)
       \<and> (\<forall>j \<in> set (SummaryJobs (server req context s)) - set (SummaryJobs s).
             job_ownerId j = user_id u)"
proof -
  have others:
    "filter (\<lambda>d. doc_ownerId d \<noteq> user_id u) (NotesDocuments (server req context s))
           = filter (\<lambda>d. doc_ownerId d \<noteq> user_id u) (NotesDocuments s)
       \<and> filter (\<lambda>m. sum_ownerId m \<noteq> user_id u) (NoteSummaries (server req context s))
           = filter (\<lambda>m. sum_ownerId m \<noteq> user_id u) (NoteSummaries s)
       \<and> filter (\<lambda>j. job_ownerId j \<noteq> user_id u) (SummaryJobs (server req context s))
           = filter (\<lambda>j. job_ownerId j \<noteq> user_id u) (SummaryJobs s)"
  proof (cases req)
    case (CreateDocument input now1 now2)
    from createDocument_state [OF auth, of s input now1 now2]
    show ?thesis using CreateDocument by auto
  next
    case (UpdateDocument input now)
    obtain r s' where e: "updateDocument input context now s = (r, s')"
      by (cases "updateDocument input context now s")
    have "filter (\<lambda>d. doc_ownerId d \<noteq> user_id u)
            (map (\<lambda>d. if doc_id d = ud_id input \<and> doc_ownerId d = user_id u
                       then set_document (document_updateData input @ [Set_updatedAt now]) d
                       else d) (NotesDocuments s))
          = filter (\<lambda>d. doc_ownerId d \<noteq> user_id u) (NotesDocuments s)"
      by (rule others_update) (simp_all add: set_document_keeps)
    with updateDocument_state [OF auth e] show ?thesis
      using UpdateDocument e by auto
  next
    case (DeleteDocument input)
    have "filter (\<lambda>d. doc_ownerId d \<noteq> user_id u)
            (filter (\<lambda>d. \<not> (doc_id d = dd_id input \<and> doc_ownerId d = user_id u)) (NotesDocuments s))
          = filter (\<lambda>d. doc_ownerId d \<noteq> user_id u) (NotesDocuments s)"
      by (rule others_delete) simp
    with deleteDocument_state [OF auth, of input s] show ?thesis
      using DeleteDocument by auto
  next
    case ListDocuments
    then show ?thesis by (simp add: read_only_state)
  next
    case (GetDocumentWithSummaries input)
    then show ?thesis by (simp add: read_only_state)
  next
    case (CreateSummary input now)
    obtain r s' where e: "createSummary input context now s = (r, s')"
      by (cases "createSummary input context now s")
    from createSummary_state [OF auth e] show ?thesis
      using CreateSummary e by auto
  next
    case (ListSummaries input)
    then show ?thesis by (simp add: read_only_state)
  next
    case (CreateJob input now)
    obtain r s' where e: "createJob input context now s = (r, s')"
      by (cases "createJob input context now s")
    from createJob_state [OF auth e] show ?thesis
      using CreateJob e by auto
  next
    case (UpdateJob input)
    obtain r s' where e: "updateJob input context s = (r, s')"
      by (cases "updateJob input context s")
    have d: "distinct (map job_id (SummaryJobs s))"
      using wf by (simp add: wf_db_def pk_ok_def)
    from updateJob_state [OF auth e] show ?thesis
    proof
      assume "s' = s"
      then show ?thesis using UpdateJob e by simp
    next
      assume a: "(\<exists>e \<in> set (SummaryJobs s). job_id e = uj_id input \<and> job_ownerId e = user_id u)
              \<and> s' = s\<lparr>SummaryJobs :=
                    map (\<lambda>j. if job_id j = uj_id input then set_job (job_updateData input) j else j)
                      (SummaryJobs s)\<rparr>"
      then obtain x where x: "x \<in> set (SummaryJobs s)" "job_id x = uj_id input"
          "job_ownerId x = user_id u"
        by blast
      have "\<forall>j \<in> set (SummaryJobs s). job_id j = uj_id input \<longrightarrow> job_ownerId j = user_id u"
        using pk_same [OF d _ x(1)] x(2,3) by metis
      then have "filter (\<lambda>j. job_ownerId j \<noteq> user_id u)
              (map (\<lambda>j. if job_id j = uj_id input then set_job (job_updateData input) j else j)
                 (SummaryJobs s))
            = filter (\<lambda>j. job_ownerId j \<noteq> user_id u) (SummaryJobs s)"
        by (rule others_update) (simp add: set_job_keeps)
      then show ?thesis using UpdateJob e a by simp
    qed
  next
    case (ListJobs input)
    then show ?thesis by (simp add: read_only_state)
  qed
  then show ?thesis
    using others_new [of doc_ownerId "user_id u" "NotesDocuments (server req context s)"
                        "NotesDocuments s"]
      others_new [of sum_ownerId "user_id u" "NoteSummaries (server req context s)"
                        "NoteSummaries s"]
      others_new [of job_ownerId "user_id u" "SummaryJobs (server req context s)"
                        "SummaryJobs s"]
    by blast
qed

theorem ownership_scoped_witness:
  "wf_db example_db \<and> requireUser alice = Inr alice_user
   \<and> SummaryJobs (server (UpdateJob \<lparr>uj_id = 1, uj_output = Some (JStr ''done''),
                                      uj_status = Some Completed\<rparr>) alice example_db)
       = [alice_job\<lparr>job_output := Some (JStr ''done''), job_status := Completed\<rparr>, bob_job]
   \<and> filter (\<lambda>j. job_ownerId j \<noteq> user_id alice_user)
        (SummaryJobs (server (UpdateJob \<lparr>uj_id = 1, uj_output = Some (JStr ''done''),
                                         uj_status = Some Completed\<rparr>) alice example_db))
       = [bob_job]"
proof -
  let ?req = "UpdateJob \<lparr>uj_id = 1, uj_output = Some (JStr ''done''), uj_status = Some Completed\<rparr>"
  have e: "SummaryJobs (server ?req alice example_db)
             = [alice_job\<lparr>job_output := Some (JStr ''done''), job_status := Completed\<rparr>, bob_job]"
    by (simp add: updateJob_def eval_defs job_updateData_def set_job_def example_defs)
  have o: "filter (\<lambda>j. job_ownerId j \<noteq> user_id alice_user) (SummaryJobs example_db) = [bob_job]"
    by (simp add: example_defs)
  have "filter (\<lambda>j. job_ownerId j \<noteq> user_id alice_user) (SummaryJobs (server ?req alice example_db))
          = filter (\<lambda>j. job_ownerId j \<noteq> user_id alice_user) (SummaryJobs example_db)"
    using ownership_scoped [OF wf_db_example requireUser_alice, of ?req] by blast
  then show ?thesis
    using wf_db_example requireUser_alice e o by (simp only: simp_thms)
qed

text \<open>
  C3. Update Document with an input that carries only the id, on a document the caller
  owns, returns the stored row as it is and leaves the store as it was: no field of the
  row changes, \<open>updatedAt\<close> included.
\<close>

theorem updateDocument_noop:
  assumes "wf_db s" and "requireUser context = Inr u"
    and "d \<in> set (NotesDocuments s)" and "doc_id d = ud_id input" and "doc_ownerId d = user_id u"
    and "ud_title input = None" and "ud_content input = None" and "ud_sourceType input = None"
    and "ud_sourceMeta input = None" and "ud_tags input = None"
  shows "updateDocument input context now s = (Inr (Some d), s)"
proof -
  have "distinct (map doc_id (NotesDocuments s))"
    using assms(1) by (simp add: wf_db_def pk_ok_def)
  then have "List.find (\<lambda>x. doc_id x = ud_id input \<and> doc_ownerId x = user_id u) (NotesDocuments s)
               = Some d"
    using assms(3-5) by (rule pk_find)
  moreover have "document_updateData input = []"
    using assms(6-10) by (simp add: document_updateData_empty)
  ultimately show ?thesis
    using assms(2) by (simp add: updateDocument_def first_limit_select)
qed

theorem updateDocument_noop_witness:
  "wf_db example_db \<and> requireUser alice = Inr alice_user
   \<and> alice_document \<in> set (NotesDocuments example_db)
   \<and> doc_ownerId alice_document = user_id alice_user
   \<and> updateDocument \<lparr>ud_id = 1, ud_title = None, ud_content = None, ud_sourceType = None,
                       ud_sourceMeta = None, ud_tags = None\<rparr> alice 70 example_db
       = (Inr (Some alice_document), example_db)"
proof -
  let ?input = "\<lparr>ud_id = 1, ud_title = None, ud_content = None, ud_sourceType = None,
                  ud_sourceMeta = None, ud_tags = None\<rparr>"
  have m: "alice_document \<in> set (NotesDocuments example_db)"
    by (simp add: example_db_def)
  have i: "doc_id alice_document = ud_id ?input"
    by (simp add: alice_document_def)
  have o: "doc_ownerId alice_document = user_id alice_user"
    by (simp add: alice_document_def alice_user_def)
  show ?thesis
    using updateDocument_noop [OF wf_db_example requireUser_alice m i o, of 70]
      wf_db_example requireUser_alice m o
    by simp
qed

text \<open>
  C4. Delete Document with an id under which the caller owns no document (no document
  has the id, or the one that has it belongs to another user) fails with NOT_FOUND and
  leaves the whole store as it was.
\<close>

theorem deleteDocument_not_owned:
  assumes "requireUser context = Inr u"
    and "\<forall>d \<in> set (NotesDocuments s). doc_id d = dd_id input \<longrightarrow> doc_ownerId d \<noteq> user_id u"
  shows "deleteDocument input context s = (Inl (ActionError NOT_FOUND ''Document not found.''), s)"
proof -
  let ?P = "\<lambda>d. doc_id d = dd_id input \<and> doc_ownerId d = user_id u"
  from assms(2) have "\<forall>d \<in> set (NotesDocuments s). \<not> ?P d"
    by blast
  then have "filter (\<lambda>d. \<not> ?P d) (NotesDocuments s) = NotesDocuments s
               \<and> filter ?P (NotesDocuments s) = []"
    by (rule filter_none)
  then show ?thesis
    using assms(1)
    by (simp add: deleteDocument_def delete_NotesDocuments_def delete_where_def first_def
        document_not_found_def)
qed

theorem deleteDocument_not_owned_witness:
  "requireUser alice = Inr alice_user
   \<and> filter (\<lambda>d. doc_id d = 2 \<and> doc_ownerId d = user_id alice_user) (NotesDocuments example_db) = []
   \<and> filter (\<lambda>d. doc_id d = 2) (NotesDocuments example_db) = [bob_document]
   \<and> filter (\<lambda>d. doc_id d = 7) (NotesDocuments example_db) = []
   \<and> deleteDocument \<lparr>dd_id = 2\<rparr> alice example_db
       = (Inl (ActionError NOT_FOUND ''Document not found.''), example_db)
   \<and> deleteDocument \<lparr>dd_id = 7\<rparr> alice example_db
       = (Inl (ActionError NOT_FOUND ''Document not found.''), example_db)"
proof -
  have h2: "\<forall>d \<in> set (NotesDocuments example_db).
              doc_id d = dd_id \<lparr>dd_id = 2\<rparr> \<longrightarrow> doc_ownerId d \<noteq> user_id alice_user"
    by (simp add: example_defs)
  have h7: "\<forall>d \<in> set (NotesDocuments example_db).
              doc_id d = dd_id \<lparr>dd_id = 7\<rparr> \<longrightarrow> doc_ownerId d \<noteq> user_id alice_user"
    by (simp add: example_defs)
  show ?thesis
    using deleteDocument_not_owned [OF requireUser_alice h2]
      deleteDocument_not_owned [OF requireUser_alice h7] requireUser_alice
    by (simp add: example_defs)
qed

text \<open>
  C5. Create Summary with a documentId under which the caller owns no document fails
  with NOT_FOUND and leaves the store as it was: no row is inserted into the summaries.
\<close>

theorem createSummary_not_owned:
  assumes "requireUser context = Inr u"
    and "\<forall>d \<in> set (NotesDocuments s). doc_id d = cs_documentId input \<longrightarrow> doc_ownerId d \<noteq> user_id u"
  shows "createSummary input context now s = (Inl (ActionError NOT_FOUND ''Document not found.''), s)"
proof -
  have "List.find (\<lambda>d. doc_id d = cs_documentId input \<and> doc_ownerId d = user_id u)
          (NotesDocuments s) = None"
    using assms(2) by (auto simp: find_None_iff)
  then show ?thesis
    using assms(1)
    by (simp add: createSummary_def first_limit_select document_not_found_def)
qed

theorem createSummary_not_owned_witness:
  "requireUser alice = Inr alice_user
   \<and> filter (\<lambda>d. doc_id d = 2 \<and> doc_ownerId d = user_id alice_user) (NotesDocuments example_db) = []
   \<and> filter (\<lambda>d. doc_id d = 2) (NotesDocuments example_db) = [bob_document]
   \<and> createSummary \<lparr>cs_documentId = 2, cs_summaryType = None, cs_content = ''stolen'',
                      cs_originalLength = None, cs_summaryLength = None, cs_meta = None\<rparr>
        alice 80 example_db
       = (Inl (ActionError NOT_FOUND ''Document not found.''), example_db)"
proof -
  let ?input = "\<lparr>cs_documentId = 2, cs_summaryType = None, cs_content = ''stolen'',
                  cs_originalLength = None, cs_summaryLength = None, cs_meta = None\<rparr>"
  have h: "\<forall>d \<in> set (NotesDocuments example_db).
             doc_id d = cs_documentId ?input \<longrightarrow> doc_ownerId d \<noteq> user_id alice_user"
    by (simp add: example_defs)
  show ?thesis
    using createSummary_not_owned [OF requireUser_alice h, of 80] requireUser_alice
    by (simp add: example_defs)
qed

text \<open>
  C6. List Summaries called with a documentId the caller does not own fails with
  NOT_FOUND, also when another user owns a document with that id. The handler tests
  the documentId for truthiness before it narrows the caller's documents, so the id 0
  is not rejected: in the example store no document has the id 0, and Alice's call
  with documentId 0 returns all her summaries instead of failing.
\<close>

theorem listSummaries_zero_not_rejected:
  "filter (\<lambda>d. doc_id d = 0) (NotesDocuments example_db) = []
   \<and> listSummaries (Some \<lparr>ls_documentId = Some 0\<rparr>) alice example_db
       = (Inr [alice_summary], example_db)"
  by (simp add: listSummaries_def requireUser_def select_where_def truthy_def example_defs)

lemma listSummaries_not_owned:
  assumes "requireUser context = Inr u" and "i \<noteq> 0"
    and "\<forall>d \<in> set (NotesDocuments s). doc_id d = i \<longrightarrow> doc_ownerId d \<noteq> user_id u"
  shows "listSummaries (Some \<lparr>ls_documentId = Some i\<rparr>) context s
           = (Inl (ActionError NOT_FOUND ''Document not found.''), s)"
proof -
  have "filter (\<lambda>doc. Some (doc_id doc) = Some i)
          (filter (\<lambda>d. doc_ownerId d = user_id u) (NotesDocuments s)) = []"
    using assms(3) by (auto simp: filter_empty_conv)
  then show ?thesis
    using assms(1,2)
    by (simp add: listSummaries_def select_where_def truthy_def document_not_found_def)
qed

text \<open>
  C7. List Jobs with a status filter and no documentId returns exactly the jobs whose
  \<open>ownerId\<close> is the caller's id, whose status is the filter value and whose
  \<open>documentId\<close>, when set, is the id of a document the caller owns; jobs without a
  \<open>documentId\<close> are included. This holds in every store that respects the references
  declared in tables.ts and whose document ids count from 1: there no job refers to a
  document 0, the one id the handler's truthiness test would let through.
\<close>

theorem listJobs_status_exact:
  assumes "requireUser context = Inr u" and "refs_ok s" and "ids_from_1 s"
  shows "listJobs (Some \<lparr>lj_documentId = None, lj_status = Some status\<rparr>) context s =
           (Inr (filter (\<lambda>j. job_ownerId j = user_id u \<and> job_status j = status
                          \<and> (case job_documentId j of
                                None \<Rightarrow> True
                              | Some k \<Rightarrow>
                                  (\<exists>d \<in> set (NotesDocuments s).
                                     doc_id d = k \<and> doc_ownerId d = user_id u)))
                   (SummaryJobs s)), s)"
proof -
  have zero: "job_documentId j \<noteq> Some 0" if "j \<in> set (SummaryJobs s)" for j
    using that assms(2) no_document_0 [OF assms(3)] by (auto simp: refs_ok_iff)
  have "filter (\<lambda>job.
            (case job_documentId job of
               None \<Rightarrow> True
             | Some k \<Rightarrow>
                 if truthy (Some k)
                 then k \<in> set (map doc_id (filter (\<lambda>d. doc_ownerId d = user_id u) (NotesDocuments s)))
                 else True)
            \<and> job_status job = status)
          (filter (\<lambda>j. job_ownerId j = user_id u) (SummaryJobs s))
        = filter (\<lambda>j. job_ownerId j = user_id u \<and> job_status j = status
                          \<and> (case job_documentId j of
                                None \<Rightarrow> True
                              | Some k \<Rightarrow>
                                  (\<exists>d \<in> set (NotesDocuments s).
                                     doc_id d = k \<and> doc_ownerId d = user_id u)))
            (SummaryJobs s)"
    unfolding filter_filter
  proof (rule filter_cong [OF refl])
    fix j assume "j \<in> set (SummaryJobs s)"
    from zero [OF this]
    show "(job_ownerId j = user_id u
            \<and> (case job_documentId j of
                  None \<Rightarrow> True
                | Some k \<Rightarrow>
                    if truthy (Some k)
                    then k \<in> set (map doc_id (filter (\<lambda>d. doc_ownerId d = user_id u) (NotesDocuments s)))
                    else True)
            \<and> job_status j = status)
          = (job_ownerId j = user_id u \<and> job_status j = status
              \<and> (case job_documentId j of
                    None \<Rightarrow> True
                  | Some k \<Rightarrow>
                      (\<exists>d \<in> set (NotesDocuments s). doc_id d = k \<and> doc_ownerId d = user_id u)))"
      by (auto simp: truthy_def split: option.splits)
  qed
  moreover have "listJobs (Some \<lparr>lj_documentId = None, lj_status = Some status\<rparr>) context s =
      (Inr (filter (\<lambda>job.
            (case job_documentId job of
               None \<Rightarrow> True
             | Some k \<Rightarrow>
                 if truthy (Some k)
                 then k \<in> set (map doc_id (filter (\<lambda>d. doc_ownerId d = user_id u) (NotesDocuments s)))
                 else True)
            \<and> job_status job = status)
          (filter (\<lambda>j. job_ownerId j = user_id u) (SummaryJobs s))), s)"
    using assms(1)
    by (simp add: listJobs_def select_where_def truthy_None cong: option.case_cong if_cong)
  ultimately show ?thesis
    by (simp only:)
qed

theorem listJobs_status_exact_witness:
  "requireUser bob = Inr bob_user \<and> refs_ok example_db \<and> ids_from_1 example_db
   \<and> listJobs (Some \<lparr>lj_documentId = None, lj_status = Some Failed\<rparr>) bob example_db
       = (Inr [bob_job], example_db)
   \<and> listJobs (Some \<lparr>lj_documentId = None, lj_status = Some Pending\<rparr>) bob example_db
       = (Inr [], example_db)"
proof -
  have f: "filter (\<lambda>j. job_ownerId j = user_id bob_user \<and> job_status j = Failed
                          \<and> (case job_documentId j of
                                None \<Rightarrow> True
                              | Some k \<Rightarrow>
                                  (\<exists>d \<in> set (NotesDocuments example_db).
                                     doc_id d = k \<and> doc_ownerId d = user_id bob_user)))
             (SummaryJobs example_db) = [bob_job]"
    by (simp add: example_defs)
  have p: "filter (\<lambda>j. job_ownerId j = user_id bob_user \<and> job_status j = Pending
                          \<and> (case job_documentId j of
                                None \<Rightarrow> True
                              | Some k \<Rightarrow>
                                  (\<exists>d \<in> set (NotesDocuments example_db).
                                     doc_id d = k \<and> doc_ownerId d = user_id bob_user)))
             (SummaryJobs example_db) = []"
    by (simp add: example_defs)
  show ?thesis
    using listJobs_status_exact [OF requireUser_bob refs_ok_example ids_from_1_example, of Failed]
      listJobs_status_exact [OF requireUser_bob refs_ok_example ids_from_1_example, of Pending]
      requireUser_bob refs_ok_example ids_from_1_example
    by (simp only: f p simp_thms)
qed

text \<open>
  C8. Round trip of the opaque metadata: when a caller creates a document in a store
  whose primary keys are unique and then reads the returned id back with Get Document
  With Summaries, the call succeeds and yields the created row itself, whose
  \<open>sourceMeta\<close> is the value that was supplied.
\<close>

theorem sourceMeta_roundtrip:
  assumes "wf_db s" and "requireUser context = Inr u"
    and "createDocument input context now1 now2 s = (r, s')"
  shows "\<exists>D summaries. r = Inr D
           \<and> getDocumentWithSummaries \<lparr>gd_id = doc_id D\<rparr> context s' = (Inr (D, summaries), s')
           \<and> doc_sourceMeta D = cd_sourceMeta input"
proof -
  from createDocument_state [OF assms(2), of s input now1 now2] assms(3)
  obtain D where D: "doc_id D = NotesDocuments_seq s" "doc_ownerId D = user_id u"
      "doc_sourceMeta D = cd_sourceMeta input" "r = Inr D"
      "s' = s\<lparr>NotesDocuments := NotesDocuments s @ [D],
               NotesDocuments_seq := NotesDocuments_seq s + 1\<rparr>"
    by auto
  have "pk_ok doc_id (NotesDocuments s @ [D]) (NotesDocuments_seq s + 1)"
    using assms(1) D(1) by (simp add: wf_db_def pk_ok_insert)
  then have "distinct (map doc_id (NotesDocuments s'))"
    using D(5) by (simp add: pk_ok_def)
  moreover have "D \<in> set (NotesDocuments s')"
    using D(5) by simp
  ultimately have "List.find (\<lambda>x. doc_id x = doc_id D \<and> doc_ownerId x = user_id u) (NotesDocuments s')
      = Some D"
    using D(2) by (intro pk_find) simp_all
  then show ?thesis
    using assms(2) D(3,4)
    by (simp add: getDocumentWithSummaries_def first_limit_select)
qed

theorem sourceMeta_roundtrip_witness:
  "wf_db example_db \<and> requireUser alice = Inr alice_user
   \<and> cd_sourceMeta meeting_input = Some (JObj [(''a'', JNum 1)])
   \<and> (\<exists>D summaries.
         fst (createDocument meeting_input alice 60 61 example_db) = Inr D
         \<and> getDocumentWithSummaries \<lparr>gd_id = doc_id D\<rparr> alice
               (snd (createDocument meeting_input alice 60 61 example_db))
             = (Inr (D, summaries), snd (createDocument meeting_input alice 60 61 example_db))
         \<and> doc_sourceMeta D = Some (JObj [(''a'', JNum 1)]))"
proof -
  have c: "createDocument meeting_input alice 60 61 example_db =
             (fst (createDocument meeting_input alice 60 61 example_db),
              snd (createDocument meeting_input alice 60 61 example_db))"
    by simp
  have m: "cd_sourceMeta meeting_input = Some (JObj [(''a'', JNum 1)])"
    by (simp add: meeting_input_def)
  show ?thesis
    using sourceMeta_roundtrip [OF wf_db_example requireUser_alice c]
      wf_db_example requireUser_alice m
    by (simp only: simp_thms)
qed

text \<open>
  C9. Update Job on a job \<open>j\<close> the caller owns, in a store whose primary keys are unique,
  returns \<open>j\<close> with at most its \<open>output\<close> and \<open>status\<close> replaced by the supplied values
  and stores exactly that: in the jobs table \<open>j\<close> is replaced by the returned row, every
  other row stays, and no other part of the store changes. When neither \<open>output\<close> nor
  \<open>status\<close> is supplied it returns \<open>j\<close> and the store is unchanged. No request of any
  caller deletes a job: after it the ids of the jobs that were stored are still there,
  in their places.
\<close>

theorem updateJob_frame:
  assumes wf: "wf_db s" and auth: "requireUser context = Inr u"
    and own: "j \<in> set (SummaryJobs s)" "job_id j = uj_id input" "job_ownerId j = user_id u"
  shows "updateJob input context s =
           (Inr (Some (j\<lparr>job_output := (case uj_output input of None \<Rightarrow> job_output j | Some v \<Rightarrow> Some v),
                        job_status := (case uj_status input of None \<Rightarrow> job_status j | Some v \<Rightarrow> v)\<rparr>)),
            s\<lparr>SummaryJobs :=
                map (\<lambda>r. if r = j
                         then j\<lparr>job_output := (case uj_output input of None \<Rightarrow> job_output j | Some v \<Rightarrow> Some v),
                               job_status := (case uj_status input of None \<Rightarrow> job_status j | Some v \<Rightarrow> v)\<rparr>
                         else r) (SummaryJobs s)\<rparr>)
       \<and> (uj_output input = None \<and> uj_status input = None
            \<longrightarrow> updateJob input context s = (Inr (Some j), s))
       \<and> (\<forall>req context'.
            take (length (SummaryJobs s)) (map job_id (SummaryJobs (server req context' s)))
              = map job_id (SummaryJobs s))"
proof -
  let ?j' = "j\<lparr>job_output := (case uj_output input of None \<Rightarrow> job_output j | Some v \<Rightarrow> Some v),
               job_status := (case uj_status input of None \<Rightarrow> job_status j | Some v \<Rightarrow> v)\<rparr>"
  have d: "distinct (map job_id (SummaryJobs s))"
    using wf by (simp add: wf_db_def pk_ok_def)
  have found: "List.find (\<lambda>x. job_id x = uj_id input \<and> job_ownerId x = user_id u) (SummaryJobs s)
      = Some j"
    using d own by (rule pk_find)
  have only: "filter (\<lambda>x. job_id x = uj_id input) (SummaryJobs s) = [j]"
    using pk_filter [OF d own(1)] own(2) by simp
  have same: "map (\<lambda>r. if job_id r = uj_id input then set_job (job_updateData input) r else r)
                (SummaryJobs s)
              = map (\<lambda>r. if r = j then ?j' else r) (SummaryJobs s)"
  proof (rule map_cong [OF refl])
    fix r assume "r \<in> set (SummaryJobs s)"
    then have "job_id r = uj_id input \<longleftrightarrow> r = j"
      using pk_same [OF d _ own(1)] own(2) by auto
    then show "(if job_id r = uj_id input then set_job (job_updateData input) r else r)
               = (if r = j then ?j' else r)"
      by (simp add: set_job_updateData)
  qed
  have noop: "updateJob input context s = (Inr (Some j), s)"
    if "uj_output input = None \<and> uj_status input = None"
    using that auth found
    by (simp add: updateJob_def first_limit_select job_updateData_empty [THEN iffD2])
  have main: "updateJob input context s =
      (Inr (Some ?j'), s\<lparr>SummaryJobs := map (\<lambda>r. if r = j then ?j' else r) (SummaryJobs s)\<rparr>)"
  proof (cases "uj_output input = None \<and> uj_status input = None")
    case True
    then have eq: "?j' = j" by simp
    have "map (\<lambda>r. if r = j then ?j' else r) (SummaryJobs s) = SummaryJobs s"
      by (rule map_idI) (simp add: eq)
    then have st: "s\<lparr>SummaryJobs := map (\<lambda>r. if r = j then ?j' else r) (SummaryJobs s)\<rparr> = s"
      by simp
    show ?thesis
      by (subst st, subst eq, rule noop [OF True])
  next
    case False
    then have ne: "job_updateData input \<noteq> []"
      by (simp add: job_updateData_empty)
    have upd: "update_where (\<lambda>j. job_id j = uj_id input) (set_job (job_updateData input))
                 (SummaryJobs s)
               = (map (\<lambda>r. if r = j then ?j' else r) (SummaryJobs s), [?j'])"
      unfolding update_where_def same only by (simp add: set_job_updateData)
    have "first [?j'] = Some ?j'"
      by (simp add: first_def)
    then show ?thesis
      using auth found ne upd
      by (simp add: updateJob_def first_limit_select)
  qed
  show ?thesis
    using main noop server_keeps_jobs by blast
qed

theorem updateJob_frame_witness:
  "wf_db example_db \<and> requireUser alice = Inr alice_user
   \<and> alice_job \<in> set (SummaryJobs example_db)
   \<and> updateJob \<lparr>uj_id = 1, uj_output = Some (JStr ''done''), uj_status = Some Completed\<rparr>
        alice example_db
       = (Inr (Some (alice_job\<lparr>job_output := Some (JStr ''done''), job_status := Completed\<rparr>)),
          example_db\<lparr>SummaryJobs :=
            [alice_job\<lparr>job_output := Some (JStr ''done''), job_status := Completed\<rparr>, bob_job]\<rparr>)
   \<and> updateJob \<lparr>uj_id = 1, uj_output = None, uj_status = None\<rparr> alice example_db
       = (Inr (Some alice_job), example_db)"
proof -
  let ?set = "\<lparr>uj_id = 1, uj_output = Some (JStr ''done''), uj_status = Some Completed\<rparr>"
  let ?none = "\<lparr>uj_id = 1, uj_output = None, uj_status = None\<rparr>"
  have m: "alice_job \<in> set (SummaryJobs example_db)"
    by (simp add: example_db_def)
  have o: "job_ownerId alice_job = user_id alice_user"
    by (simp add: alice_job_def alice_user_def)
  have i: "job_id alice_job = uj_id ?set" "job_id alice_job = uj_id ?none"
    by (simp_all add: alice_job_def)
  have n: "bob_job \<noteq> alice_job"
    by (simp add: alice_job_def bob_job_def)
  have rows: "SummaryJobs example_db = [alice_job, bob_job]"
    by (simp add: example_db_def)
  have "updateJob ?set alice example_db
       = (Inr (Some (alice_job\<lparr>job_output := Some (JStr ''done''), job_status := Completed\<rparr>)),
          example_db\<lparr>SummaryJobs :=
            [alice_job\<lparr>job_output := Some (JStr ''done''), job_status := Completed\<rparr>, bob_job]\<rparr>)"
    using updateJob_frame [OF wf_db_example requireUser_alice m i(1) o] n
    by (simp add: rows)
  moreover have "updateJob ?none alice example_db = (Inr (Some alice_job), example_db)"
  proof -
    have "uj_output ?none = None \<and> uj_status ?none = None"
      by simp
    with updateJob_frame [OF wf_db_example requireUser_alice m i(2) o] show ?thesis
      by blast
  qed
  ultimately show ?thesis
    using wf_db_example requireUser_alice m by (simp only: simp_thms)
qed

text \<open>
  C10. The documentId 0. Create Job with documentId 0 skips the lookup of the parent
  document and never fails with NOT_FOUND, but it does not insert a job in every
  store: the insert with documentId 0 falls under the reference to the documents, so
  it stores the job only when some document has the id 0, and otherwise (always, where
  the document ids count from 1) the store refuses it, the call ends with the store's
  exception and the store is as it was. List Summaries and List Jobs with documentId 0
  return what they return when no documentId is supplied.
\<close>

theorem documentId_zero:
  assumes "requireUser context = Inr u"
  shows "(cj_documentId input = Some 0 \<longrightarrow>
            (if 0 \<in> set (map doc_id (NotesDocuments s))
             then \<exists>job. createJob input context now s =
                          (Inr job, s\<lparr>SummaryJobs := SummaryJobs s @ [job],
                                      SummaryJobs_seq := SummaryJobs_seq s + 1\<rparr>)
                      \<and> job_documentId job = Some 0 \<and> job_ownerId job = user_id u
             else createJob input context now s = (Inl ForeignKeyConstraintFailed, s)))
       \<and> (cj_documentId input = Some 0 \<and> ids_from_1 s \<longrightarrow>
            createJob input context now s = (Inl ForeignKeyConstraintFailed, s))
       \<and> listSummaries (Some \<lparr>ls_documentId = Some 0\<rparr>) context s = listSummaries None context s
       \<and> listSummaries (Some \<lparr>ls_documentId = Some 0\<rparr>) context s
           = listSummaries (Some \<lparr>ls_documentId = None\<rparr>) context s
       \<and> listJobs (Some \<lparr>lj_documentId = Some 0, lj_status = status\<rparr>) context s
           = listJobs (Some \<lparr>lj_documentId = None, lj_status = status\<rparr>) context s
       \<and> listJobs (Some \<lparr>lj_documentId = Some 0, lj_status = None\<rparr>) context s
           = listJobs None context s"
proof -
  have create: "createJob input context now s =
      (if 0 \<in> set (map doc_id (NotesDocuments s))
       then (Inr \<lparr>job_id = SummaryJobs_seq s, job_documentId = Some 0,
                   job_ownerId = user_id u,
                   job_jobType = nullish (cj_jobType input) JobSummary,
                   job_input = cj_input input, job_output = cj_output input,
                   job_status = nullish (cj_status input) Pending, job_createdAt = now\<rparr>,
             s\<lparr>SummaryJobs := SummaryJobs s @
                  [\<lparr>job_id = SummaryJobs_seq s, job_documentId = Some 0,
                     job_ownerId = user_id u,
                     job_jobType = nullish (cj_jobType input) JobSummary,
                     job_input = cj_input input, job_output = cj_output input,
                     job_status = nullish (cj_status input) Pending, job_createdAt = now\<rparr>],
               SummaryJobs_seq := SummaryJobs_seq s + 1\<rparr>)
       else (Inl ForeignKeyConstraintFailed, s))"
    if "cj_documentId input = Some 0"
    using that assms by (simp add: createJob_def insert_SummaryJobs_def truthy_def Let_def)
  have first: "cj_documentId input = Some 0 \<longrightarrow>
            (if 0 \<in> set (map doc_id (NotesDocuments s))
             then \<exists>job. createJob input context now s =
                          (Inr job, s\<lparr>SummaryJobs := SummaryJobs s @ [job],
                                      SummaryJobs_seq := SummaryJobs_seq s + 1\<rparr>)
                      \<and> job_documentId job = Some 0 \<and> job_ownerId job = user_id u
             else createJob input context now s = (Inl ForeignKeyConstraintFailed, s))"
    using create by (cases "0 \<in> set (map doc_id (NotesDocuments s))") auto
  have second: "cj_documentId input = Some 0 \<and> ids_from_1 s \<longrightarrow>
            createJob input context now s = (Inl ForeignKeyConstraintFailed, s)"
    using create no_document_0 [of s] by auto
  have lists: "listSummaries (Some \<lparr>ls_documentId = Some 0\<rparr>) context s = listSummaries None context s
       \<and> listSummaries (Some \<lparr>ls_documentId = Some 0\<rparr>) context s
           = listSummaries (Some \<lparr>ls_documentId = None\<rparr>) context s
       \<and> listJobs (Some \<lparr>lj_documentId = Some 0, lj_status = status\<rparr>) context s
           = listJobs (Some \<lparr>lj_documentId = None, lj_status = status\<rparr>) context s
       \<and> listJobs (Some \<lparr>lj_documentId = Some 0, lj_status = None\<rparr>) context s
           = listJobs None context s"
    using assms by (simp add: listSummaries_def listJobs_def truthy_def Let_def)
  show ?thesis
    using first second lists by blast
qed

theorem documentId_zero_witness:
  "requireUser alice = Inr alice_user
   \<and> cj_documentId zero_job_input = Some 0
   \<and> ids_from_1 example_db
   \<and> createJob zero_job_input alice 90 example_db = (Inl ForeignKeyConstraintFailed, example_db)
   \<and> listSummaries (Some \<lparr>ls_documentId = Some 0\<rparr>) alice example_db
       = listSummaries None alice example_db
   \<and> listJobs (Some \<lparr>lj_documentId = Some 0, lj_status = Some Failed\<rparr>) alice example_db
       = listJobs (Some \<lparr>lj_documentId = None, lj_status = Some Failed\<rparr>) alice example_db"
proof -
  have z: "cj_documentId zero_job_input = Some 0"
    by (simp add: zero_job_input_def)
  show ?thesis
    using documentId_zero [OF requireUser_alice, of zero_job_input example_db 90 "Some Failed"]
      requireUser_alice z ids_from_1_example
    by (simp only: simp_thms)
qed

text \<open>
  C10 as first stated, that Create Job with documentId 0 inserts a job row, fails on
  the example store: no document has the id 0, the store refuses the insert, and the
  store is as it was.
\<close>

theorem createJob_zero_refused:
  "createJob zero_job_input alice 90 example_db = (Inl ForeignKeyConstraintFailed, example_db)"
  by (simp add: createJob_def requireUser_def truthy_def nullish_def insert_SummaryJobs_def
      example_defs)

end
